theory Spec2Isabelle
  imports Main "HOL-Library.AList" "HOL-Library.Sublist"
begin

section \<open>Values decoded from the LLM response\<close>

text \<open>
  \<^verbatim>\<open>JSON.parse\<close> yields a dynamically typed value. The number type is left open
  (\<open>'n\<close>): the two things the dispatcher does with a number, testing it for
  truthiness and interpolating it into a template literal, are the fields of
  \<open>js_num\<close>. A property that is absent reads as \<^verbatim>\<open>undefined\<close>, which is \<open>None\<close> of
  \<open>'n json option\<close>.
\<close>

datatype 'n json =
    JNull
  | JBool bool
  | JNum 'n
  | JStr string
  | JArr "'n json list"
  | JObj "(string \<times> 'n json) list"

record 'n js_num =
  num_falsy :: "'n \<Rightarrow> bool"
  num_text :: "'n \<Rightarrow> string"

text \<open>JavaScript truthiness of a decoded value, and of a property read.\<close>

fun truthy_val :: "'n js_num \<Rightarrow> 'n json \<Rightarrow> bool" where
  "truthy_val ops JNull = False"
| "truthy_val ops (JBool b) = b"
| "truthy_val ops (JNum n) = (\<not> num_falsy ops n)"
| "truthy_val ops (JStr s) = (s \<noteq> [])"
| "truthy_val ops (JArr xs) = True"
| "truthy_val ops (JObj kvs) = True"

fun truthy :: "'n js_num \<Rightarrow> 'n json option \<Rightarrow> bool" where
  "truthy ops None = False"
| "truthy ops (Some v) = truthy_val ops v"

text \<open>
  Reading one of the properties the dispatcher names (\<open>action\<close>, \<open>payload\<close>,
  \<open>categoryName\<close>, \<open>name\<close>, \<open>slug\<close>, \<open>description\<close>, \<open>metaTitle\<close>,
  \<open>metaDescription\<close>, \<open>focusKeyphrase\<close>) from a value that is neither
  \<^verbatim>\<open>null\<close> nor \<^verbatim>\<open>undefined\<close>: an object gives its own property, every other
  value gives \<^verbatim>\<open>undefined\<close> (no prototype has a property of one of these names).
\<close>

fun property :: "'n json \<Rightarrow> string \<Rightarrow> 'n json option" where
  "property (JObj kvs) k = map_of kvs k"
| "property v k = None"

text \<open>
  What the code can throw: \<^verbatim>\<open>JSON.parse\<close> its SyntaxError, a property read on
  \<^verbatim>\<open>null\<close> or \<^verbatim>\<open>undefined\<close> and a failed string conversion a TypeError, a service its
  rejection.
\<close>

datatype js_error = SyntaxError | TypeError | ServiceError

text \<open>\<^verbatim>\<open>Array.prototype.join\<close> on strings.\<close>

fun join :: "string \<Rightarrow> string list \<Rightarrow> string" where
  "join sep [] = []"
| "join sep [x] = x"
| "join sep (x # y # ys) = x @ sep @ join sep (y # ys)"

text \<open>The results of a sequence of steps, up to the first that throws.\<close>

fun first_error :: "(js_error + 'a) list \<Rightarrow> js_error + 'a list" where
  "first_error [] = Inr []"
| "first_error (Inl e # rs) = Inl e"
| "first_error (Inr a # rs) =
     (case first_error rs of
        Inl e \<Rightarrow> Inl e
      | Inr as \<Rightarrow> Inr (a # as))"

text \<open>
  The string a template literal makes of a decoded value (the abstract operation
  ToString). An array joins its elements with commas, \<^verbatim>\<open>null\<close> elements as empty
  strings. An object is converted by its \<^verbatim>\<open>toString\<close> method: the inherited one gives
  \<^verbatim>\<open>[object Object]\<close>; an own property \<^verbatim>\<open>toString\<close> of a decoded object is never
  callable, \<^verbatim>\<open>valueOf\<close> (own and not callable, or inherited and returning the object)
  gives no primitive either, and the conversion throws a TypeError.
\<close>

fun to_string :: "'n js_num \<Rightarrow> 'n json \<Rightarrow> js_error + string" where
  "to_string ops JNull = Inr ''null''"
| "to_string ops (JBool b) = Inr (if b then ''true'' else ''false'')"
| "to_string ops (JNum n) = Inr (num_text ops n)"
| "to_string ops (JStr s) = Inr s"
| "to_string ops (JArr xs) =
     (case first_error (map (\<lambda>x. if x = JNull then Inr [] else to_string ops x) xs) of
        Inl e \<Rightarrow> Inl e
      | Inr parts \<Rightarrow> Inr (join '','' parts))"
| "to_string ops (JObj kvs) =
     (case map_of kvs ''toString'' of
        None \<Rightarrow> Inr ''[object Object]''
      | Some v \<Rightarrow> Inl TypeError)"

section \<open>Data of types.ts\<close>

record yoast_head =
  yh_title :: "string option"
  yh_description :: "string option"

record wp_category =
  cat_id :: int
  cat_name :: string
  cat_slug :: string
  cat_description :: string
  yoast_head_json :: "yoast_head option"
  yoast_wpseo_title :: "string option"
  yoast_wpseo_metadesc :: "string option"
  yoast_wpseo_focuskw :: "string option"

text \<open>
  The object \<^verbatim>\<open>updatePayload\<close> of the update branch: its keys in insertion order
  with the values assigned, which are whatever the payload held.
\<close>

type_synonym 'n patch = "(string \<times> 'n json) list"

section \<open>The update patch (App.tsx, lines 169 to 176)\<close>

definition put_present :: "'n json \<Rightarrow> string \<Rightarrow> string \<Rightarrow> 'n patch \<Rightarrow> 'n patch" where
  "put_present payload src dst p =
     (case property payload src of
        None \<Rightarrow> p
      | Some v \<Rightarrow> AList.update dst v p)"

definition put_truthy ::
  "'n js_num \<Rightarrow> 'n json \<Rightarrow> string \<Rightarrow> string \<Rightarrow> 'n patch \<Rightarrow> 'n patch" where
  "put_truthy ops payload src dst p =
     (case property payload src of
        None \<Rightarrow> p
      | Some v \<Rightarrow> if truthy_val ops v then AList.update dst v p else p)"

definition build_patch :: "'n js_num \<Rightarrow> 'n json \<Rightarrow> 'n patch" where
  "build_patch ops payload =
     (let p0 = [];
          p1 = put_present payload ''description'' ''description'' p0;
          p2 = put_truthy ops payload ''name'' ''name'' p1;
          p3 = put_truthy ops payload ''slug'' ''slug'' p2;
          p4 = put_truthy ops payload ''metaTitle'' ''_yoast_wpseo_title'' p3;
          p5 = put_truthy ops payload ''metaDescription'' ''_yoast_wpseo_metadesc'' p4;
          p6 = put_truthy ops payload ''focusKeyphrase'' ''_yoast_wpseo_focuskw'' p5
      in p6)"

section \<open>The messages of the dispatcher\<close>

text \<open>
  Strings are byte lists in UTF-8; the accented letters and the characters that a
  string literal cannot hold are named here. No string is ever measured or indexed by
  the dispatcher, only tested for emptiness and concatenated.
\<close>

definition nl :: string where "nl = [CHR 0x0A]"
definition dq :: string where "dq = [CHR 0x22]"
definition apos :: string where "apos = [CHR 0x27]"
definition e_acute :: string where "e_acute = [CHR 0xC3, CHR 0xA9]"
definition e_grave :: string where "e_grave = [CHR 0xC3, CHR 0xA8]"
definition a_grave :: string where "a_grave = [CHR 0xC3, CHR 0xA0]"

definition quoted :: "string \<Rightarrow> string" where
  "quoted s = dq @ s @ dq"

definition bullet_sep :: string where
  "bullet_sep = nl @ '' - ''"

definition non_defini :: string where
  "non_defini = ''Non d'' @ e_acute @ ''fini''"

definition non_definie :: string where
  "non_definie = ''Non d'' @ e_acute @ ''finie''"

definition categorie :: string where
  "categorie = ''cat'' @ e_acute @ ''gorie''"

definition specifier :: string where
  "specifier = ''sp'' @ e_acute @ ''cifier''"

definition mettre_a_jour :: string where
  "mettre_a_jour = a_grave @ '' mettre '' @ a_grave @ '' jour''"

definition pas_trouve :: string where
  "pas_trouve = ''je n'' @ apos @ ''ai pas trouv'' @ e_acute"

text \<open>Line 131.\<close>

definition msg_list :: "string list \<Rightarrow> string" where
  "msg_list names =
     ''Voici les '' @ categorie @ ''s de produits trouv'' @ e_acute @ ''es : '' @ nl @ nl @
     '' - '' @ join bullet_sep names"

text \<open>Line 136.\<close>

definition msg_specify :: string where
  "msg_specify = ''Veuillez '' @ specifier @ '' un nom de '' @ categorie @ ''.''"

text \<open>Line 148, with the five values already chosen.\<close>

definition msg_metadata ::
  "string \<Rightarrow> string \<Rightarrow> string \<Rightarrow> string \<Rightarrow> string \<Rightarrow> string \<Rightarrow> string" where
  "msg_metadata name description slug yoastTitle yoastDesc yoastFocusKw =
     ''Voici les m'' @ e_acute @ ''tadonn'' @ e_acute @ ''es pour '' @ quoted name @ '':'' @ nl @ nl @
     ''- Description: '' @ description @ nl @
     ''- Slug: '' @ slug @ nl @
     ''- Titre SEO (Yoast): '' @ yoastTitle @ nl @
     ''- M'' @ e_acute @ ''ta Description (Yoast): '' @ yoastDesc @ nl @
     ''- Expression-cl'' @ e_acute @ '' principale (Yoast): '' @ yoastFocusKw"

text \<open>Lines 150 and 191: the names of the suggestions, each in double quotes.\<close>

definition suggestionList :: "wp_category list \<Rightarrow> string" where
  "suggestionList suggs = join bullet_sep (map (\<lambda>s. quoted (cat_name s)) suggs)"

definition vouliez_vous :: "wp_category list \<Rightarrow> string" where
  "vouliez_vous suggs =
     nl @ nl @ ''Vouliez-vous dire l'' @ apos @ ''une de ces '' @ categorie @ ''s ?'' @ nl @
     '' - '' @ suggestionList suggs"

text \<open>Lines 151 and 153.\<close>

definition msg_suggest :: "string \<Rightarrow> wp_category list \<Rightarrow> string" where
  "msg_suggest name suggs =
     ''Je n'' @ apos @ ''ai pas trouv'' @ e_acute @ '' de correspondance exacte pour '' @
     quoted name @ ''.'' @ vouliez_vous suggs"

definition msg_not_found :: "string \<Rightarrow> string" where
  "msg_not_found name =
     ''D'' @ e_acute @ ''sol'' @ e_acute @ '', '' @ pas_trouve @ '' de '' @ categorie @
     '' nomm'' @ e_acute @ ''e '' @ quoted name @ '' ou s'' @ apos @ ''en approchant.''"

text \<open>Lines 161, 179, 185, 188, 192 and 194.\<close>

definition msg_specify_update :: string where
  "msg_specify_update =
     ''Veuillez '' @ specifier @ '' un nom de '' @ categorie @ '' '' @ mettre_a_jour @ ''.''"

definition msg_nothing :: string where
  "msg_nothing =
     ''Aucune modification '' @ a_grave @ '' appliquer. Veuillez '' @ specifier @
     '' un champ '' @ a_grave @ '' modifier.''"

definition msg_updated :: "string \<Rightarrow> string" where
  "msg_updated name =
     ''La '' @ categorie @ '' '' @ quoted name @ '' a '' @ e_acute @ ''t'' @ e_acute @
     '' mise '' @ a_grave @ '' jour avec succ'' @ e_grave @ ''s.''"

definition msg_update_failed :: "string \<Rightarrow> string" where
  "msg_update_failed name =
     ''Une erreur est survenue lors de la mise '' @ a_grave @ '' jour de la '' @ categorie @
     '' '' @ quoted name @ ''.''"

definition msg_suggest_update :: "string \<Rightarrow> wp_category list \<Rightarrow> string" where
  "msg_suggest_update name suggs =
     ''Je n'' @ apos @ ''ai pas trouv'' @ e_acute @ '' de correspondance exacte pour '' @
     quoted name @ '' '' @ mettre_a_jour @ ''.'' @ vouliez_vous suggs"

definition msg_not_found_update :: "string \<Rightarrow> string" where
  "msg_not_found_update name =
     ''D'' @ e_acute @ ''sol'' @ e_acute @ '', '' @ pas_trouve @ '' de '' @ categorie @
     '' nomm'' @ e_acute @ ''e '' @ quoted name @ '' '' @ mettre_a_jour @ ''.''"

section \<open>The services and what a dispatch leaves behind\<close>

text \<open>
  The three functions of \<^verbatim>\<open>services/wordpressService\<close> that the dispatcher awaits are
  parameters: \<open>'s\<close> is the state of the site the credentials point to. A rejected
  promise is a thrown value (\<open>ServiceError\<close>). \<open>exactMatch\<close> is \<open>None\<close> when the service leaves it
  \<^verbatim>\<open>null\<close> or \<^verbatim>\<open>undefined\<close>.
\<close>

record lookup =
  exactMatch :: "wp_category option"
  suggestions :: "wp_category list"

record ('n, 's) services =
  getCategories :: "'s \<Rightarrow> js_error + wp_category list"
  getCategoryByName :: "'s \<Rightarrow> 'n json \<Rightarrow> js_error + lookup"
  updateCategoryMetadata :: "'s \<Rightarrow> int \<Rightarrow> 'n patch \<Rightarrow> js_error option \<times> 's"

datatype 'n call =
    CallGetCategories
  | CallGetCategoryByName "'n json"
  | CallUpdateCategoryMetadata int "'n patch"

text \<open>
  \<open>Responded s\<close>: \<^verbatim>\<open>actionResponse\<close> was assigned \<open>s\<close>. \<open>NoResponse\<close>: it is still
  \<^verbatim>\<open>null\<close> when the switch is left. \<open>Thrown e\<close>: \<open>e\<close> left the code of lines 126 to
  205 for the handler of the \<^verbatim>\<open>try\<close> of line 125.
\<close>

datatype outcome = Responded string | NoResponse | Thrown js_error

record ('n, 's) run =
  result :: outcome
  calls :: "'n call list"
  site :: "'s"

definition is_update :: "'n call \<Rightarrow> bool" where
  "is_update c = (case c of CallUpdateCategoryMetadata i p \<Rightarrow> True | _ \<Rightarrow> False)"

definition update_calls :: "('n, 's) run \<Rightarrow> nat" where
  "update_calls r = length (filter is_update (calls r))"

section \<open>The dispatcher (App.tsx, lines 124 to 205)\<close>

definition responded :: "string \<Rightarrow> 'n call list \<Rightarrow> 's \<Rightarrow> ('n, 's) run" where
  "responded s cs st = \<lparr>result = Responded s, calls = cs, site = st\<rparr>"

definition no_response :: "'n call list \<Rightarrow> 's \<Rightarrow> ('n, 's) run" where
  "no_response cs st = \<lparr>result = NoResponse, calls = cs, site = st\<rparr>"

definition thrown :: "js_error \<Rightarrow> 'n call list \<Rightarrow> 's \<Rightarrow> ('n, 's) run" where
  "thrown e cs st = \<lparr>result = Thrown e, calls = cs, site = st\<rparr>"

text \<open>
  A response whose template literal interpolates a decoded value: the conversion of
  the value comes first, and when it throws there is no response.
\<close>

definition respond_with ::
  "(string \<Rightarrow> string) \<Rightarrow> js_error + string \<Rightarrow> 'n call list \<Rightarrow> 's \<Rightarrow> ('n, 's) run" where
  "respond_with msg shown cs st =
     (case shown of
        Inl e \<Rightarrow> thrown e cs st
      | Inr name \<Rightarrow> responded (msg name) cs st)"

text \<open>
  Reading a property of \<^verbatim>\<open>parsedResponse.payload\<close>, or destructuring it, throws a
  TypeError when the payload is \<^verbatim>\<open>undefined\<close> or \<^verbatim>\<open>null\<close>.
\<close>

fun object_of :: "'n json option \<Rightarrow> js_error + 'n json" where
  "object_of None = Inl TypeError"
| "object_of (Some JNull) = Inl TypeError"
| "object_of (Some v) = Inr v"

text \<open>The operator \<^verbatim>\<open>||\<close> on strings, and \<^verbatim>\<open>?.\<close> on the optional Yoast record.\<close>

definition str_or :: "string \<Rightarrow> string \<Rightarrow> string" where
  "str_or s d = (if s \<noteq> [] then s else d)"

definition opt_or :: "string option \<Rightarrow> string \<Rightarrow> string" where
  "opt_or x d = (case x of None \<Rightarrow> d | Some s \<Rightarrow> str_or s d)"

definition head_title :: "wp_category \<Rightarrow> string option" where
  "head_title c = (case yoast_head_json c of None \<Rightarrow> None | Some h \<Rightarrow> yh_title h)"

definition head_description :: "wp_category \<Rightarrow> string option" where
  "head_description c = (case yoast_head_json c of None \<Rightarrow> None | Some h \<Rightarrow> yh_description h)"

text \<open>Lines 130 to 132.\<close>

definition list_categories :: "('n, 's) services \<Rightarrow> 's \<Rightarrow> ('n, 's) run" where
  "list_categories sv st =
     (case getCategories sv st of
        Inl e \<Rightarrow> thrown e [CallGetCategories] st
      | Inr categories \<Rightarrow>
          responded (msg_list (map cat_name categories)) [CallGetCategories] st)"

text \<open>Lines 142 to 148.\<close>

definition metadata_response :: "wp_category \<Rightarrow> string" where
  "metadata_response category =
     (let yoastTitle = opt_or (head_title category) non_defini;
          yoastDesc = opt_or (head_description category) non_definie;
          yoastFocusKw = opt_or (yoast_wpseo_focuskw category) non_definie;
          slug = str_or (cat_slug category) non_defini
      in msg_metadata (cat_name category) (str_or (cat_description category) non_definie)
           slug yoastTitle yoastDesc yoastFocusKw)"

text \<open>Lines 133 to 156.\<close>

definition get_category_metadata ::
  "'n js_num \<Rightarrow> ('n, 's) services \<Rightarrow> 's \<Rightarrow> 'n json \<Rightarrow> ('n, 's) run" where
  "get_category_metadata ops sv st parsedResponse =
     (case object_of (property parsedResponse ''payload'') of
        Inl e \<Rightarrow> thrown e [] st
      | Inr payload \<Rightarrow>
          (case property payload ''categoryName'' of
             None \<Rightarrow> responded msg_specify [] st
           | Some categoryNameToFind \<Rightarrow>
               if \<not> truthy_val ops categoryNameToFind then responded msg_specify [] st
               else
                 (case getCategoryByName sv st categoryNameToFind of
                    Inl e \<Rightarrow> thrown e [CallGetCategoryByName categoryNameToFind] st
                  | Inr found \<Rightarrow>
                      (case exactMatch found of
                         Some category \<Rightarrow>
                           responded (metadata_response category)
                             [CallGetCategoryByName categoryNameToFind] st
                       | None \<Rightarrow>
                           if length (suggestions found) > 0 then
                             respond_with (\<lambda>name. msg_suggest name (suggestions found))
                               (to_string ops categoryNameToFind)
                               [CallGetCategoryByName categoryNameToFind] st
                           else
                             respond_with msg_not_found (to_string ops categoryNameToFind)
                               [CallGetCategoryByName categoryNameToFind] st))))"

text \<open>Line 185: \<^verbatim>\<open>name || categoryName\<close>.\<close>

definition name_or :: "'n js_num \<Rightarrow> 'n json option \<Rightarrow> 'n json \<Rightarrow> 'n json" where
  "name_or ops name categoryName =
     (case name of
        None \<Rightarrow> categoryName
      | Some n \<Rightarrow> if truthy_val ops n then n else categoryName)"

text \<open>
  Lines 186 to 189: the handler of the inner \<^verbatim>\<open>try\<close>. Its message interpolates
  \<^verbatim>\<open>categoryName\<close>; a conversion that throws here leaves the branch.
\<close>

definition update_failed ::
  "'n js_num \<Rightarrow> 'n json \<Rightarrow> 'n call list \<Rightarrow> 's \<Rightarrow> ('n, 's) run" where
  "update_failed ops categoryName cs st =
     respond_with msg_update_failed (to_string ops categoryName) cs st"

text \<open>
  Lines 168 to 189: the branch of an exact match. The success message of line 185 is
  built inside the \<^verbatim>\<open>try\<close>, so a conversion of \<^verbatim>\<open>name || categoryName\<close> that throws is
  caught by the handler like a rejection of the update.
\<close>

definition update_exact ::
  "'n js_num \<Rightarrow> ('n, 's) services \<Rightarrow> 's \<Rightarrow> 'n json \<Rightarrow> 'n json \<Rightarrow> wp_category \<Rightarrow> ('n, 's) run" where
  "update_exact ops sv st payload categoryName categoryToUpdate =
     (let updatePayload = build_patch ops payload in
      if length updatePayload = 0 then
        responded msg_nothing [CallGetCategoryByName categoryName] st
      else
        (case updateCategoryMetadata sv st (cat_id categoryToUpdate) updatePayload of
           (None, st') \<Rightarrow>
             (case to_string ops (name_or ops (property payload ''name'') categoryName) of
                Inr name \<Rightarrow>
                  responded (msg_updated name)
                    [CallGetCategoryByName categoryName,
                     CallUpdateCategoryMetadata (cat_id categoryToUpdate) updatePayload] st'
              | Inl e \<Rightarrow>
                  update_failed ops categoryName
                    [CallGetCategoryByName categoryName,
                     CallUpdateCategoryMetadata (cat_id categoryToUpdate) updatePayload] st')
         | (Some e, st') \<Rightarrow>
             update_failed ops categoryName
               [CallGetCategoryByName categoryName,
                CallUpdateCategoryMetadata (cat_id categoryToUpdate) updatePayload] st'))"

text \<open>Lines 157 to 197.\<close>

definition update_category_metadata ::
  "'n js_num \<Rightarrow> ('n, 's) services \<Rightarrow> 's \<Rightarrow> 'n json \<Rightarrow> ('n, 's) run" where
  "update_category_metadata ops sv st parsedResponse =
     (case object_of (property parsedResponse ''payload'') of
        Inl e \<Rightarrow> thrown e [] st
      | Inr payload \<Rightarrow>
          (case property payload ''categoryName'' of
             None \<Rightarrow> responded msg_specify_update [] st
           | Some categoryName \<Rightarrow>
               if \<not> truthy_val ops categoryName then responded msg_specify_update [] st
               else
                 (case getCategoryByName sv st categoryName of
                    Inl e \<Rightarrow> thrown e [CallGetCategoryByName categoryName] st
                  | Inr found \<Rightarrow>
                      (case exactMatch found of
                         Some categoryToUpdate \<Rightarrow>
                           update_exact ops sv st payload categoryName categoryToUpdate
                       | None \<Rightarrow>
                           if length (suggestions found) > 0 then
                             respond_with (\<lambda>name. msg_suggest_update name (suggestions found))
                               (to_string ops categoryName)
                               [CallGetCategoryByName categoryName] st
                           else
                             respond_with msg_not_found_update (to_string ops categoryName)
                               [CallGetCategoryByName categoryName] st))))"

text \<open>
  Lines 198 to 205: the payload's \<^verbatim>\<open>categoryName\<close> is read, and both ways out of the
  block are a \<^verbatim>\<open>break\<close> with \<^verbatim>\<open>actionResponse\<close> untouched.
\<close>

definition copy_yoast_meta_desc_to_desc ::
  "'n js_num \<Rightarrow> ('n, 's) services \<Rightarrow> 's \<Rightarrow> 'n json \<Rightarrow> ('n, 's) run" where
  "copy_yoast_meta_desc_to_desc ops sv st parsedResponse =
     (case object_of (property parsedResponse ''payload'') of
        Inl e \<Rightarrow> thrown e [] st
      | Inr payload \<Rightarrow>
          if \<not> truthy ops (property payload ''categoryName'') then no_response [] st
          else no_response [] st)"

text \<open>
  Lines 127 to 205, on the value \<^verbatim>\<open>JSON.parse\<close> returned. \<^verbatim>\<open>wpCredentials\<close> is not null
  here (line 101 returns otherwise). The switch compares with \<^verbatim>\<open>===\<close>, so only a string
  selects a case. The source ends after the fourth case.
\<close>

definition dispatch ::
  "'n js_num \<Rightarrow> ('n, 's) services \<Rightarrow> 's \<Rightarrow> 'n json \<Rightarrow> ('n, 's) run" where
  "dispatch ops sv st parsedResponse =
     (if parsedResponse = JNull then thrown TypeError [] st
      else if \<not> truthy ops (property parsedResponse ''action'') then no_response [] st
      else if property parsedResponse ''action'' = Some (JStr ''LIST_CATEGORIES'') then
        list_categories sv st
      else if property parsedResponse ''action'' = Some (JStr ''GET_CATEGORY_METADATA'') then
        get_category_metadata ops sv st parsedResponse
      else if property parsedResponse ''action'' = Some (JStr ''UPDATE_CATEGORY_METADATA'') then
        update_category_metadata ops sv st parsedResponse
      else if property parsedResponse ''action'' = Some (JStr ''COPY_YOAST_META_DESC_TO_DESC'') then
        copy_yoast_meta_desc_to_desc ops sv st parsedResponse
      else no_response [] st)"

text \<open>
  Lines 124 to 205 on the text of the LLM: \<open>json_parse\<close> is \<^verbatim>\<open>JSON.parse\<close>, \<open>None\<close> where
  it throws its SyntaxError.
\<close>

definition handle_response ::
  "'n js_num \<Rightarrow> (string \<Rightarrow> 'n json option) \<Rightarrow> ('n, 's) services \<Rightarrow> 's \<Rightarrow> string \<Rightarrow> ('n, 's) run" where
  "handle_response ops json_parse sv st aiResponseText =
     (case json_parse aiResponseText of
        None \<Rightarrow> thrown SyntaxError [] st
      | Some parsedResponse \<Rightarrow> dispatch ops sv st parsedResponse)"

section \<open>The parts of the repository that the sources do not hold\<close>

datatype resolution = ExactMatch wp_category | Suggestions "wp_category list"

text \<open>
  Modelled from the spec: the Name Resolver \<open>resolve\<close> (section 4.2), which is
  \<^verbatim>\<open>getCategoryByName\<close> of \<^verbatim>\<open>services/wordpressService\<close>; that module is not among
  the sources. The spec fixes neither the normal form of a name nor the similarity
  score, so both are parameters: \<open>normal\<close> is the normal form under which names
  are compared, \<open>suggest\<close> is the whole second phase (the ranked candidates that clear
  the threshold, cut to the fixed number).
\<close>

definition resolve ::
  "(string \<Rightarrow> string) \<Rightarrow> (wp_category list \<Rightarrow> string \<Rightarrow> wp_category list) \<Rightarrow>
   wp_category list \<Rightarrow> string \<Rightarrow> resolution" where
  "resolve normal suggest categories queryName =
     (case find (\<lambda>c. normal (cat_name c) = normal queryName) categories of
        Some c \<Rightarrow> ExactMatch c
      | None \<Rightarrow> Suggestions (suggest categories queryName))"

text \<open>
  Modelled from the spec: the object that \<^verbatim>\<open>getCategoryByName\<close> hands to the
  dispatcher, which destructures it into \<^verbatim>\<open>exactMatch\<close> and \<^verbatim>\<open>suggestions\<close>; by section 3
  the two results exclude each other, and an exact match suppresses the suggestions.
\<close>

definition lookup_of :: "resolution \<Rightarrow> lookup" where
  "lookup_of r =
     (case r of
        ExactMatch c \<Rightarrow> \<lparr>exactMatch = Some c, suggestions = []\<rparr>
      | Suggestions cs \<Rightarrow> \<lparr>exactMatch = None, suggestions = cs\<rparr>)"

text \<open>
  Modelled from the spec: the write of the Category Directory Client (section 4.1),
  \<^verbatim>\<open>updateCategoryMetadata\<close> of the absent \<^verbatim>\<open>services/wordpressService\<close>. A field named
  in the patch is overwritten, every other field is left as it is. The fields are
  strings (types.ts), so a patch that holds another kind of value, or a key that is no
  field, is rejected, as is an id that no category has.
\<close>

definition set_field :: "string \<times> 'n json \<Rightarrow> wp_category \<Rightarrow> wp_category option" where
  "set_field kv c =
     (case snd kv of
        JStr s \<Rightarrow>
          if fst kv = ''description'' then Some (c\<lparr>cat_description := s\<rparr>)
          else if fst kv = ''name'' then Some (c\<lparr>cat_name := s\<rparr>)
          else if fst kv = ''slug'' then Some (c\<lparr>cat_slug := s\<rparr>)
          else if fst kv = ''_yoast_wpseo_title'' then Some (c\<lparr>yoast_wpseo_title := Some s\<rparr>)
          else if fst kv = ''_yoast_wpseo_metadesc'' then Some (c\<lparr>yoast_wpseo_metadesc := Some s\<rparr>)
          else if fst kv = ''_yoast_wpseo_focuskw'' then Some (c\<lparr>yoast_wpseo_focuskw := Some s\<rparr>)
          else None
      | _ \<Rightarrow> None)"

fun apply_patch :: "'n patch \<Rightarrow> wp_category \<Rightarrow> wp_category option" where
  "apply_patch [] c = Some c"
| "apply_patch (kv # p) c =
     (case set_field kv c of
        None \<Rightarrow> None
      | Some c' \<Rightarrow> apply_patch p c')"

fun patch_all :: "int \<Rightarrow> 'n patch \<Rightarrow> wp_category list \<Rightarrow> wp_category list option" where
  "patch_all i p [] = Some []"
| "patch_all i p (c # cs) =
     (case (if cat_id c = i then apply_patch p c else Some c) of
        None \<Rightarrow> None
      | Some c' \<Rightarrow>
          (case patch_all i p cs of
             None \<Rightarrow> None
           | Some cs' \<Rightarrow> Some (c' # cs')))"

definition directory_update ::
  "wp_category list \<Rightarrow> int \<Rightarrow> 'n patch \<Rightarrow> js_error option \<times> wp_category list" where
  "directory_update categories i p =
     (if i \<notin> set (map cat_id categories) then (Some ServiceError, categories)
      else
        (case patch_all i p categories of
           None \<Rightarrow> (Some ServiceError, categories)
         | Some categories' \<Rightarrow> (None, categories')))"

text \<open>
  Modelled from the spec: the three services over a reachable directory whose state is
  the catalog itself. \<^verbatim>\<open>services/wordpressService\<close> is absent; a category name that is
  not a string has no normal form and is refused.
\<close>

definition directory ::
  "(string \<Rightarrow> string) \<Rightarrow> (wp_category list \<Rightarrow> string \<Rightarrow> wp_category list) \<Rightarrow>
   ('n, wp_category list) services" where
  "directory normal suggest =
     \<lparr>getCategories = (\<lambda>categories. Inr categories),
      getCategoryByName =
        (\<lambda>categories q.
           case q of
             JStr queryName \<Rightarrow> Inr (lookup_of (resolve normal suggest categories queryName))
           | _ \<Rightarrow> Inl TypeError),
      updateCategoryMetadata = directory_update\<rparr>"

text \<open>
  Modelled from the spec: what the user is shown (sections 4.3, 4.4 and 7). The handler
  of the \<^verbatim>\<open>try\<close> of line 125 and the code behind the switch lie beyond the end of the
  source file. A response of the dispatcher is shown; with no response, and when the
  decoding or a property read failed, the text of the LLM is shown verbatim; a failure
  of a service is answered with an apology, whose wording the spec leaves open.
\<close>

definition reply :: "string \<Rightarrow> string \<Rightarrow> outcome \<Rightarrow> string" where
  "reply apology aiResponseText r =
     (case r of
        Responded s \<Rightarrow> s
      | NoResponse \<Rightarrow> aiResponseText
      | Thrown e \<Rightarrow> (if e = ServiceError then apology else aiResponseText))"

section \<open>Sample instances\<close>

text \<open>ASCII case folding as a normal form, and natural numbers as the numbers.\<close>

definition lower_char :: "char \<Rightarrow> char" where
  "lower_char c =
     (case map_of (zip ''ABCDEFGHIJKLMNOPQRSTUVWXYZ'' ''abcdefghijklmnopqrstuvwxyz'') c of
        None \<Rightarrow> c
      | Some l \<Rightarrow> l)"

definition to_lower :: "string \<Rightarrow> string" where
  "to_lower s = map lower_char s"

definition no_suggestions :: "wp_category list \<Rightarrow> string \<Rightarrow> wp_category list" where
  "no_suggestions categories queryName = []"

definition nat_num :: "nat js_num" where
  "nat_num = \<lparr>num_falsy = (\<lambda>n. n = 0), num_text = (\<lambda>n. replicate n CHR ''1'')\<rparr>"

definition bare_category :: "int \<Rightarrow> string \<Rightarrow> wp_category" where
  "bare_category i n =
     \<lparr>cat_id = i, cat_name = n, cat_slug = [], cat_description = [],
      yoast_head_json = None, yoast_wpseo_title = None, yoast_wpseo_metadesc = None,
      yoast_wpseo_focuskw = None\<rparr>"

definition action_json :: "string \<Rightarrow> (string \<times> nat json) list \<Rightarrow> nat json" where
  "action_json a payload = JObj [(''action'', JStr a), (''payload'', JObj payload)]"

text \<open>A catalog of two categories without metadata, and its directory.\<close>

definition shoes_catalog :: "wp_category list" where
  "shoes_catalog = [bare_category 1 ''Shoes'', bare_category 2 ''Shirts'']"

definition sample_directory :: "(nat, wp_category list) services" where
  "sample_directory = directory to_lower no_suggestions"

text \<open>The sample directory with a write that the backend rejects.\<close>

definition rejecting_directory :: "(nat, wp_category list) services" where
  "rejecting_directory =
     sample_directory\<lparr>updateCategoryMetadata := (\<lambda>st i p. (Some ServiceError, st))\<rparr>"

text \<open>
  A category with every field set, and one with an SEO title and an empty SEO meta
  description.
\<close>

definition full_shoes :: wp_category where
  "full_shoes =
     \<lparr>cat_id = 1, cat_name = ''Shoes'', cat_slug = ''shoes'', cat_description = ''Footwear'',
      yoast_head_json = Some \<lparr>yh_title = Some ''Shoes | Shop'', yh_description = Some ''Great shoes''\<rparr>,
      yoast_wpseo_title = None, yoast_wpseo_metadesc = None,
      yoast_wpseo_focuskw = Some ''sneakers''\<rparr>"

definition titled_shoes :: wp_category where
  "titled_shoes =
     (bare_category 1 ''Shoes'')
       \<lparr>yoast_head_json := Some \<lparr>yh_title = Some ''T'', yh_description = Some []\<rparr>\<rparr>"

text \<open>A category that has an SEO meta description and no description.\<close>

definition described_shoes :: wp_category where
  "described_shoes =
     (bare_category 1 ''Shoes'')
       \<lparr>yoast_head_json := Some \<lparr>yh_title = None, yh_description = Some ''Great shoes''\<rparr>,
        yoast_wpseo_metadesc := Some ''Great shoes''\<rparr>"

text \<open>
  A stand-in for \<^verbatim>\<open>JSON.parse\<close> that decodes three texts and rejects every other one.
\<close>

definition dance_text :: string where
  "dance_text = ''{'' @ dq @ ''action'' @ dq @ '':'' @ dq @ ''DANCE'' @ dq @ ''}''"

definition sample_parse :: "string \<Rightarrow> nat json option" where
  "sample_parse s =
     (if s = dance_text then Some (JObj [(''action'', JStr ''DANCE'')])
      else if s = ''{}'' then Some (JObj [])
      else if s = ''null'' then Some JNull
      else None)"

section \<open>Texts that are no action\<close>

text \<open>The four action names of the switch.\<close>

definition recognized :: "string list" where
  "recognized =
     [''LIST_CATEGORIES'', ''GET_CATEGORY_METADATA'', ''UPDATE_CATEGORY_METADATA'',
      ''COPY_YOAST_META_DESC_TO_DESC'']"

text \<open>
  The text does not decode, or the decoded value has no \<open>action\<close>, or its \<open>action\<close>
  is none of the four names.
\<close>

definition no_op_text :: "'n js_num \<Rightarrow> (string \<Rightarrow> 'n json option) \<Rightarrow> string \<Rightarrow> bool" where
  "no_op_text ops json_parse aiResponseText =
     (case json_parse aiResponseText of
        None \<Rightarrow> True
      | Some parsedResponse \<Rightarrow>
          (case property parsedResponse ''action'' of
             None \<Rightarrow> True
           | Some a \<Rightarrow> a \<notin> set (map JStr recognized)))"

section \<open>Running an update twice\<close>

text \<open>
  The success message of line 185 around the name it quotes, and the test that a
  response has this shape.
\<close>

definition updated_head :: string where
  "updated_head = ''La '' @ categorie @ '' '' @ dq"

definition updated_tail :: string where
  "updated_tail =
     dq @ '' a '' @ e_acute @ ''t'' @ e_acute @ '' mise '' @ a_grave @ '' jour avec succ'' @
     e_grave @ ''s.''"

definition is_updated_msg :: "string \<Rightarrow> bool" where
  "is_updated_msg s =
     (length updated_head + length updated_tail \<le> length s \<and>
      prefix updated_head s \<and> suffix updated_tail s)"

definition update_succeeded :: "outcome \<Rightarrow> bool" where
  "update_succeeded r = (case r of Responded s \<Rightarrow> is_updated_msg s | _ \<Rightarrow> False)"

text \<open>The field of a category that a key of the patch names.\<close>

definition field_value :: "string \<Rightarrow> wp_category \<Rightarrow> string option" where
  "field_value k c =
     (if k = ''description'' then Some (cat_description c)
      else if k = ''name'' then Some (cat_name c)
      else if k = ''slug'' then Some (cat_slug c)
      else if k = ''_yoast_wpseo_title'' then yoast_wpseo_title c
      else if k = ''_yoast_wpseo_metadesc'' then yoast_wpseo_metadesc c
      else if k = ''_yoast_wpseo_focuskw'' then yoast_wpseo_focuskw c
      else None)"

text \<open>Two update actions on the sample catalog: one renames, one sets the slug.\<close>

definition rename_action :: "nat json" where
  "rename_action =
     action_json ''UPDATE_CATEGORY_METADATA''
       [(''categoryName'', JStr ''Shoes''), (''name'', JStr ''Boots'')]"

definition slug_action :: "nat json" where
  "slug_action =
     action_json ''UPDATE_CATEGORY_METADATA''
       [(''categoryName'', JStr ''shoes''), (''slug'', JStr ''boots'')]"

text \<open>An update that changes only the case of the name.\<close>

definition recase_action :: "nat json" where
  "recase_action =
     action_json ''UPDATE_CATEGORY_METADATA''
       [(''categoryName'', JStr ''shoes''), (''name'', JStr ''SHOES'')]"

text \<open>A catalog in which two categories bear the same name up to case.\<close>

definition twin_catalog :: "wp_category list" where
  "twin_catalog = [bare_category 1 ''Shoes'', bare_category 2 ''SHOES'']"


section \<open>Actions that address one category\<close>

text \<open>
  The action \<open>a\<close> carries a payload whose \<^verbatim>\<open>categoryName\<close> is truthy, and the service
  resolves that name to the exact match \<open>category\<close>.
\<close>

definition exact_request ::
  "string \<Rightarrow> 'n js_num \<Rightarrow> ('n, 's) services \<Rightarrow> 's \<Rightarrow> 'n json \<Rightarrow> 'n json \<Rightarrow> 'n json \<Rightarrow>
   wp_category \<Rightarrow> bool" where
  "exact_request a ops sv st parsedResponse payload categoryName category =
     (property parsedResponse ''action'' = Some (JStr a) \<and>
      property parsedResponse ''payload'' = Some payload \<and> payload \<noteq> JNull \<and>
      property payload ''categoryName'' = Some categoryName \<and> truthy_val ops categoryName \<and>
      (case getCategoryByName sv st categoryName of
         Inl e \<Rightarrow> False
       | Inr found \<Rightarrow> exactMatch found = Some category))"

lemma dispatch_update_exact:
  assumes "property parsed ''action'' = Some (JStr ''UPDATE_CATEGORY_METADATA'')"
    and "property parsed ''payload'' = Some payload" and "payload \<noteq> JNull"
    and "property payload ''categoryName'' = Some cn" and "truthy_val ops cn"
    and "getCategoryByName sv st cn = Inr found" and "exactMatch found = Some c"
  shows "dispatch ops sv st parsed = update_exact ops sv st payload cn c"
proof -
  have obj: "object_of (Some payload) = Inr payload"
    using assms(3) by (cases payload) simp_all
  have nn: "parsed \<noteq> JNull"
    using assms(1) by auto
  show ?thesis
    using assms nn obj by (simp add: dispatch_def update_category_metadata_def)
qed

lemma dispatch_get_exact:
  assumes "property parsed ''action'' = Some (JStr ''GET_CATEGORY_METADATA'')"
    and "property parsed ''payload'' = Some payload" and "payload \<noteq> JNull"
    and "property payload ''categoryName'' = Some cn" and "truthy_val ops cn"
    and "getCategoryByName sv st cn = Inr found" and "exactMatch found = Some c"
  shows "dispatch ops sv st parsed =
         responded (metadata_response c) [CallGetCategoryByName cn] st"
proof -
  have obj: "object_of (Some payload) = Inr payload"
    using assms(3) by (cases payload) simp_all
  have nn: "parsed \<noteq> JNull"
    using assms(1) by auto
  show ?thesis
    using assms nn obj by (simp add: dispatch_def get_category_metadata_def)
qed

lemma update_request_dispatch:
  assumes "exact_request ''UPDATE_CATEGORY_METADATA'' ops sv st parsed payload cn c"
  shows "dispatch ops sv st parsed = update_exact ops sv st payload cn c"
proof -
  obtain found where "getCategoryByName sv st cn = Inr found" "exactMatch found = Some c"
    using assms by (auto simp: exact_request_def split: sum.splits)
  then show ?thesis
    using assms dispatch_update_exact [of parsed payload cn ops sv st found c]
    by (simp add: exact_request_def)
qed

lemma get_request_dispatch:
  assumes "exact_request ''GET_CATEGORY_METADATA'' ops sv st parsed payload cn c"
  shows "dispatch ops sv st parsed =
         responded (metadata_response c) [CallGetCategoryByName cn] st"
proof -
  obtain found where "getCategoryByName sv st cn = Inr found" "exactMatch found = Some c"
    using assms by (auto simp: exact_request_def split: sum.splits)
  then show ?thesis
    using assms dispatch_get_exact [of parsed payload cn ops sv st found c]
    by (simp add: exact_request_def)
qed

lemma sample_request:
  "exact_request a nat_num sample_directory shoes_catalog
     (action_json a ((''categoryName'', JStr ''shoes'') # rest))
     (JObj ((''categoryName'', JStr ''shoes'') # rest)) (JStr ''shoes'')
     (bare_category 1 ''Shoes'')"
  by (simp add: exact_request_def action_json_def sample_directory_def directory_def
      shoes_catalog_def resolve_def lookup_of_def to_lower_def lower_char_def bare_category_def)

section \<open>The update patch\<close>

lemma map_of_put_present:
  "map_of (put_present payload src dst p) k =
     (if k = dst \<and> property payload src \<noteq> None then property payload src else map_of p k)"
  by (auto simp: put_present_def update_conv' split: option.splits)

lemma map_of_put_truthy:
  "map_of (put_truthy ops payload src dst p) k =
     (if k = dst \<and> truthy ops (property payload src) then property payload src else map_of p k)"
  by (auto simp: put_truthy_def update_conv' split: option.splits)

lemma keys_put_present:
  "fst ` set (put_present payload src dst p) \<subseteq> insert dst (fst ` set p)"
  by (auto simp: put_present_def dom_update split: option.splits)

lemma keys_put_truthy:
  "fst ` set (put_truthy ops payload src dst p) \<subseteq> insert dst (fst ` set p)"
  by (auto simp: put_truthy_def dom_update split: option.splits)

lemma distinct_put_present:
  "distinct (map fst p) \<Longrightarrow> distinct (map fst (put_present payload src dst p))"
  by (simp add: put_present_def distinct_update split: option.splits)

lemma distinct_put_truthy:
  "distinct (map fst p) \<Longrightarrow> distinct (map fst (put_truthy ops payload src dst p))"
  by (simp add: put_truthy_def distinct_update split: option.splits)

lemma build_patch_keys:
  "fst ` set (build_patch ops payload) \<subseteq>
     {''description'', ''name'', ''slug'', ''_yoast_wpseo_title'', ''_yoast_wpseo_metadesc'',
      ''_yoast_wpseo_focuskw''}"
proof -
  note kp = keys_put_present [of payload] and kt = keys_put_truthy [of ops payload]
  show ?thesis
    unfolding build_patch_def Let_def
    by (rule subset_trans [OF kt] insert_mono subset_trans [OF kp] | simp)+
qed

lemma build_patch_distinct: "distinct (map fst (build_patch ops payload))"
  unfolding build_patch_def Let_def
  by (intro distinct_put_truthy distinct_put_present) simp

lemma build_patch_description:
  "map_of (build_patch ops payload) ''description'' = property payload ''description''"
  by (simp add: build_patch_def Let_def map_of_put_truthy map_of_put_present)

lemma build_patch_name:
  "map_of (build_patch ops payload) ''name'' =
     (if truthy ops (property payload ''name'') then property payload ''name'' else None)"
  by (simp add: build_patch_def Let_def map_of_put_truthy map_of_put_present)

lemma build_patch_slug:
  "map_of (build_patch ops payload) ''slug'' =
     (if truthy ops (property payload ''slug'') then property payload ''slug'' else None)"
  by (simp add: build_patch_def Let_def map_of_put_truthy map_of_put_present)

lemma build_patch_title:
  "map_of (build_patch ops payload) ''_yoast_wpseo_title'' =
     (if truthy ops (property payload ''metaTitle'') then property payload ''metaTitle'' else None)"
  by (simp add: build_patch_def Let_def map_of_put_truthy map_of_put_present)

lemma build_patch_metadesc:
  "map_of (build_patch ops payload) ''_yoast_wpseo_metadesc'' =
     (if truthy ops (property payload ''metaDescription'') then property payload ''metaDescription''
      else None)"
  by (simp add: build_patch_def Let_def map_of_put_truthy map_of_put_present)

lemma build_patch_focuskw:
  "map_of (build_patch ops payload) ''_yoast_wpseo_focuskw'' =
     (if truthy ops (property payload ''focusKeyphrase'') then property payload ''focusKeyphrase''
      else None)"
  by (simp add: build_patch_def Let_def map_of_put_truthy map_of_put_present)

lemma update_exact_sends:
  assumes "build_patch ops payload \<noteq> []"
  shows "calls (update_exact ops sv st payload cn c) =
         [CallGetCategoryByName cn, CallUpdateCategoryMetadata (cat_id c) (build_patch ops payload)]"
proof -
  obtain a st' where u: "updateCategoryMetadata sv st (cat_id c) (build_patch ops payload) = (a, st')"
    by (cases "updateCategoryMetadata sv st (cat_id c) (build_patch ops payload)")
  show ?thesis
    using assms u
    by (simp add: update_exact_def Let_def update_failed_def respond_with_def responded_def
        thrown_def split: option.splits sum.splits)
qed

text \<open>
  C1. When an update action resolves to an exact match, the patch holds
  \<open>description\<close> exactly when the payload has that property, with the payload's value
  (the empty string included); it holds \<open>name\<close>, \<open>slug\<close> and, under their Yoast keys,
  \<open>metaTitle\<close>, \<open>metaDescription\<close> and \<open>focusKeyphrase\<close> exactly when the payload's value
  is truthy; it holds no other key, none twice; and when it is not empty it is the
  patch sent to the update service.
\<close>

theorem update_patch_fields:
  assumes "exact_request ''UPDATE_CATEGORY_METADATA'' ops sv st parsed payload cn c"
  shows "map_of (build_patch ops payload) ''description'' = property payload ''description'' \<and>
     map_of (build_patch ops payload) ''name'' =
       (if truthy ops (property payload ''name'') then property payload ''name'' else None) \<and>
     map_of (build_patch ops payload) ''slug'' =
       (if truthy ops (property payload ''slug'') then property payload ''slug'' else None) \<and>
     map_of (build_patch ops payload) ''_yoast_wpseo_title'' =
       (if truthy ops (property payload ''metaTitle'') then property payload ''metaTitle''
        else None) \<and>
     map_of (build_patch ops payload) ''_yoast_wpseo_metadesc'' =
       (if truthy ops (property payload ''metaDescription'')
        then property payload ''metaDescription'' else None) \<and>
     map_of (build_patch ops payload) ''_yoast_wpseo_focuskw'' =
       (if truthy ops (property payload ''focusKeyphrase'')
        then property payload ''focusKeyphrase'' else None) \<and>
     fst ` set (build_patch ops payload) \<subseteq>
       {''description'', ''name'', ''slug'', ''_yoast_wpseo_title'', ''_yoast_wpseo_metadesc'',
        ''_yoast_wpseo_focuskw''} \<and>
     distinct (map fst (build_patch ops payload)) \<and>
     (build_patch ops payload \<noteq> [] \<longrightarrow>
        calls (dispatch ops sv st parsed) =
          [CallGetCategoryByName cn,
           CallUpdateCategoryMetadata (cat_id c) (build_patch ops payload)])"
  using update_request_dispatch [OF assms]
  by (simp add: build_patch_description build_patch_name build_patch_slug build_patch_title
      build_patch_metadesc build_patch_focuskw build_patch_keys build_patch_distinct
      update_exact_sends)

theorem update_patch_fields_witness:
  "exact_request ''UPDATE_CATEGORY_METADATA'' nat_num sample_directory shoes_catalog
     (action_json ''UPDATE_CATEGORY_METADATA''
        [(''categoryName'', JStr ''shoes''), (''description'', JStr []), (''name'', JStr []),
         (''metaTitle'', JStr ''New Title'')])
     (JObj [(''categoryName'', JStr ''shoes''), (''description'', JStr []), (''name'', JStr []),
            (''metaTitle'', JStr ''New Title'')])
     (JStr ''shoes'') (bare_category 1 ''Shoes'') \<and>
   build_patch nat_num
     (JObj [(''categoryName'', JStr ''shoes''), (''description'', JStr []), (''name'', JStr []),
            (''metaTitle'', JStr ''New Title'')]) =
     [(''description'', JStr []), (''_yoast_wpseo_title'', JStr ''New Title'')] \<and>
   calls (dispatch nat_num sample_directory shoes_catalog
     (action_json ''UPDATE_CATEGORY_METADATA''
        [(''categoryName'', JStr ''shoes''), (''description'', JStr []), (''name'', JStr []),
         (''metaTitle'', JStr ''New Title'')])) =
     [CallGetCategoryByName (JStr ''shoes''),
      CallUpdateCategoryMetadata 1
        [(''description'', JStr []), (''_yoast_wpseo_title'', JStr ''New Title'')]]"
proof -
  let ?payload = "JObj [(''categoryName'', JStr ''shoes''), (''description'', JStr []),
    (''name'', JStr []), (''metaTitle'', JStr ''New Title'')] :: nat json"
  have h: "exact_request ''UPDATE_CATEGORY_METADATA'' nat_num sample_directory shoes_catalog
     (action_json ''UPDATE_CATEGORY_METADATA''
        [(''categoryName'', JStr ''shoes''), (''description'', JStr []), (''name'', JStr []),
         (''metaTitle'', JStr ''New Title'')])
     ?payload (JStr ''shoes'') (bare_category 1 ''Shoes'')"
    by (rule sample_request)
  have p: "build_patch nat_num ?payload =
     [(''description'', JStr []), (''_yoast_wpseo_title'', JStr ''New Title'')]"
    by (simp add: build_patch_def put_present_def put_truthy_def Let_def)
  from update_patch_fields [OF h] show ?thesis
    using h p by (simp add: bare_category_def)
qed

lemma update_exact_empty:
  assumes "build_patch ops payload = []"
  shows "update_exact ops sv st payload cn c = responded msg_nothing [CallGetCategoryByName cn] st"
  using assms by (simp add: update_exact_def)

lemma update_exact_failed:
  assumes "build_patch ops payload \<noteq> []"
    and "fst (updateCategoryMetadata sv st (cat_id c) (build_patch ops payload)) = Some e"
  shows "update_exact ops sv st payload cn c =
         update_failed ops cn
           [CallGetCategoryByName cn,
            CallUpdateCategoryMetadata (cat_id c) (build_patch ops payload)]
           (snd (updateCategoryMetadata sv st (cat_id c) (build_patch ops payload)))"
  using assms
  by (cases "updateCategoryMetadata sv st (cat_id c) (build_patch ops payload)")
     (simp add: update_exact_def)

text \<open>
  C2. When an update action resolves to an exact match and its patch is empty, the
  response is the text of line 179, \<open>Aucune modification a appliquer. Veuillez specifier un champ
  a modifier.\<close> with its accents, the update service is not called
  (the only call is the name lookup), and the site is left as it was.
\<close>

theorem empty_patch_no_write:
  assumes "exact_request ''UPDATE_CATEGORY_METADATA'' ops sv st parsed payload cn c"
    and "build_patch ops payload = []"
  shows "result (dispatch ops sv st parsed) =
           Responded (''Aucune modification '' @ [CHR 0xC3, CHR 0xA0] @
                      '' appliquer. Veuillez sp'' @ [CHR 0xC3, CHR 0xA9] @ ''cifier un champ '' @
                      [CHR 0xC3, CHR 0xA0] @ '' modifier.'') \<and>
         update_calls (dispatch ops sv st parsed) = 0 \<and>
         calls (dispatch ops sv st parsed) = [CallGetCategoryByName cn] \<and>
         site (dispatch ops sv st parsed) = st"
  by (simp add: update_request_dispatch [OF assms(1)] update_exact_empty [OF assms(2)]
      responded_def update_calls_def is_update_def msg_nothing_def a_grave_def specifier_def
      e_acute_def)

theorem empty_patch_no_write_witness:
  "exact_request ''UPDATE_CATEGORY_METADATA'' nat_num sample_directory shoes_catalog
     (action_json ''UPDATE_CATEGORY_METADATA''
        [(''categoryName'', JStr ''shoes''), (''name'', JStr []), (''slug'', JNull)])
     (JObj [(''categoryName'', JStr ''shoes''), (''name'', JStr []), (''slug'', JNull)])
     (JStr ''shoes'') (bare_category 1 ''Shoes'') \<and>
   build_patch nat_num
     (JObj [(''categoryName'', JStr ''shoes''), (''name'', JStr []), (''slug'', JNull)]) = [] \<and>
   dispatch nat_num sample_directory shoes_catalog
     (action_json ''UPDATE_CATEGORY_METADATA''
        [(''categoryName'', JStr ''shoes''), (''name'', JStr []), (''slug'', JNull)]) =
     \<lparr>result =
        Responded (''Aucune modification '' @ [CHR 0xC3, CHR 0xA0] @
                   '' appliquer. Veuillez sp'' @ [CHR 0xC3, CHR 0xA9] @ ''cifier un champ '' @
                   [CHR 0xC3, CHR 0xA0] @ '' modifier.''),
      calls = [CallGetCategoryByName (JStr ''shoes'')],
      site = shoes_catalog\<rparr>"
proof -
  let ?payload = "JObj [(''categoryName'', JStr ''shoes''), (''name'', JStr []),
    (''slug'', JNull)] :: nat json"
  have h: "exact_request ''UPDATE_CATEGORY_METADATA'' nat_num sample_directory shoes_catalog
     (action_json ''UPDATE_CATEGORY_METADATA''
        [(''categoryName'', JStr ''shoes''), (''name'', JStr []), (''slug'', JNull)])
     ?payload (JStr ''shoes'') (bare_category 1 ''Shoes'')"
    by (rule sample_request)
  have p: "build_patch nat_num ?payload = []"
    by (simp add: build_patch_def put_present_def put_truthy_def Let_def)
  from empty_patch_no_write [OF h p] show ?thesis
    using h p by (simp add: run.equality)
qed

text \<open>
  C7. When an update action resolves to an exact match, its patch is not empty and the
  update service throws, the update service has been called once and is not called
  again. When the category name of the payload converts to a string, as every string,
  number and boolean does, the response is the text of line 188, \<open>Une erreur est survenue
  lors de la mise a jour de la categorie\<close> with its accents, followed by
  that name in double quotes and a full stop. The error of the update never leaves the
  branch: what can leave it is only the error of converting the name.
\<close>

theorem update_error_caught:
  assumes "exact_request ''UPDATE_CATEGORY_METADATA'' ops sv st parsed payload cn c"
    and "build_patch ops payload \<noteq> []"
    and "fst (updateCategoryMetadata sv st (cat_id c) (build_patch ops payload)) = Some e"
  shows "update_calls (dispatch ops sv st parsed) = 1 \<and>
         calls (dispatch ops sv st parsed) =
           [CallGetCategoryByName cn,
            CallUpdateCategoryMetadata (cat_id c) (build_patch ops payload)] \<and>
         (\<forall>shown. to_string ops cn = Inr shown \<longrightarrow>
            result (dispatch ops sv st parsed) =
              Responded (''Une erreur est survenue lors de la mise '' @ [CHR 0xC3, CHR 0xA0] @
                         '' jour de la cat'' @ [CHR 0xC3, CHR 0xA9] @ ''gorie '' @ [CHR 0x22] @
                         shown @ [CHR 0x22] @ ''.'')) \<and>
         (\<forall>q. cn = JStr q \<longrightarrow>
            result (dispatch ops sv st parsed) =
              Responded (''Une erreur est survenue lors de la mise '' @ [CHR 0xC3, CHR 0xA0] @
                         '' jour de la cat'' @ [CHR 0xC3, CHR 0xA9] @ ''gorie '' @ [CHR 0x22] @
                         q @ [CHR 0x22] @ ''.'')) \<and>
         (\<forall>e'. result (dispatch ops sv st parsed) = Thrown e' \<longrightarrow> to_string ops cn = Inl e')"
proof -
  have r: "dispatch ops sv st parsed =
      update_failed ops cn
        [CallGetCategoryByName cn,
         CallUpdateCategoryMetadata (cat_id c) (build_patch ops payload)]
        (snd (updateCategoryMetadata sv st (cat_id c) (build_patch ops payload)))"
    by (simp add: update_request_dispatch [OF assms(1)] update_exact_failed [OF assms(2,3)])
  show ?thesis
    unfolding r
    by (cases "to_string ops cn")
       (simp_all add: update_failed_def respond_with_def responded_def thrown_def
          update_calls_def is_update_def msg_update_failed_def a_grave_def categorie_def
          e_acute_def quoted_def dq_def)
qed

theorem update_error_caught_witness:
  "exact_request ''UPDATE_CATEGORY_METADATA'' nat_num rejecting_directory shoes_catalog
     (action_json ''UPDATE_CATEGORY_METADATA''
        [(''categoryName'', JStr ''shoes''), (''slug'', JStr ''boots'')])
     (JObj [(''categoryName'', JStr ''shoes''), (''slug'', JStr ''boots'')])
     (JStr ''shoes'') (bare_category 1 ''Shoes'') \<and>
   build_patch nat_num (JObj [(''categoryName'', JStr ''shoes''), (''slug'', JStr ''boots'')]) =
     [(''slug'', JStr ''boots'')] \<and>
   updateCategoryMetadata rejecting_directory shoes_catalog 1 [(''slug'', JStr ''boots'')] =
     (Some ServiceError, shoes_catalog) \<and>
   to_string nat_num (JStr ''shoes'') = Inr ''shoes'' \<and>
   result (dispatch nat_num rejecting_directory shoes_catalog
     (action_json ''UPDATE_CATEGORY_METADATA''
        [(''categoryName'', JStr ''shoes''), (''slug'', JStr ''boots'')])) =
     Responded (''Une erreur est survenue lors de la mise '' @ [CHR 0xC3, CHR 0xA0] @
                '' jour de la cat'' @ [CHR 0xC3, CHR 0xA9] @ ''gorie '' @ [CHR 0x22] @
                ''shoes'' @ [CHR 0x22] @ ''.'') \<and>
   calls (dispatch nat_num rejecting_directory shoes_catalog
     (action_json ''UPDATE_CATEGORY_METADATA''
        [(''categoryName'', JStr ''shoes''), (''slug'', JStr ''boots'')])) =
     [CallGetCategoryByName (JStr ''shoes''),
      CallUpdateCategoryMetadata 1 [(''slug'', JStr ''boots'')]]"
proof -
  let ?payload = "JObj [(''categoryName'', JStr ''shoes''), (''slug'', JStr ''boots'')] :: nat json"
  let ?a = "action_json ''UPDATE_CATEGORY_METADATA''
        [(''categoryName'', JStr ''shoes''), (''slug'', JStr ''boots'')]"
  have h: "exact_request ''UPDATE_CATEGORY_METADATA'' nat_num rejecting_directory shoes_catalog
     ?a ?payload (JStr ''shoes'') (bare_category 1 ''Shoes'')"
    using sample_request [of "''UPDATE_CATEGORY_METADATA''" "[(''slug'', JStr ''boots'')]"]
    by (simp add: exact_request_def rejecting_directory_def)
  have p: "build_patch nat_num ?payload = [(''slug'', JStr ''boots'')]"
    by (simp add: build_patch_def put_present_def put_truthy_def Let_def)
  have u: "updateCategoryMetadata rejecting_directory shoes_catalog 1 [(''slug'', JStr ''boots'')] =
     (Some ServiceError, shoes_catalog)"
    by (simp add: rejecting_directory_def)
  have ne: "build_patch nat_num ?payload \<noteq> []"
    by (simp add: p)
  have f: "fst (updateCategoryMetadata rejecting_directory shoes_catalog
      (cat_id (bare_category 1 ''Shoes'')) (build_patch nat_num ?payload)) = Some ServiceError"
    by (simp add: p u bare_category_def)
  have t: "to_string nat_num (JStr ''shoes'') = Inr ''shoes''"
    by simp
  note w = update_error_caught [OF h ne f]
  have c: "calls (dispatch nat_num rejecting_directory shoes_catalog ?a) =
     [CallGetCategoryByName (JStr ''shoes''),
      CallUpdateCategoryMetadata 1 [(''slug'', JStr ''boots'')]]"
    using w [THEN conjunct2, THEN conjunct1] by (simp add: p bare_category_def)
  have r: "result (dispatch nat_num rejecting_directory shoes_catalog ?a) =
     Responded (''Une erreur est survenue lors de la mise '' @ [CHR 0xC3, CHR 0xA0] @
                '' jour de la cat'' @ [CHR 0xC3, CHR 0xA9] @ ''gorie '' @ [CHR 0x22] @
                ''shoes'' @ [CHR 0x22] @ ''.'')"
    using w [THEN conjunct2, THEN conjunct2, THEN conjunct1] t by blast
  show ?thesis
    using h p u t c r by blast
qed

section \<open>Reading the metadata\<close>

lemma str_or_nonempty: "d \<noteq> [] \<Longrightarrow> str_or s d \<noteq> []"
  by (simp add: str_or_def)

lemma opt_or_nonempty: "d \<noteq> [] \<Longrightarrow> opt_or x d \<noteq> []"
  by (simp add: opt_or_def str_or_def split: option.splits)

lemma non_defini_nonempty: "non_defini \<noteq> []" "non_definie \<noteq> []"
  by (simp_all add: non_defini_def non_definie_def)

lemma sublist_mid: "sublist xs (ps @ xs @ ss)"
  by (auto simp: sublist_def)

lemma msg_metadata_lines:
  "sublist (''- Description: '' @ d) (msg_metadata n d s t m k)"
  "sublist (''- Slug: '' @ s) (msg_metadata n d s t m k)"
  "sublist (''- Titre SEO (Yoast): '' @ t) (msg_metadata n d s t m k)"
  "sublist (''- M'' @ e_acute @ ''ta Description (Yoast): '' @ m) (msg_metadata n d s t m k)"
  "sublist (''- Expression-cl'' @ e_acute @ '' principale (Yoast): '' @ k)
     (msg_metadata n d s t m k)"
proof -
  let ?h = "''Voici les m'' @ e_acute @ ''tadonn'' @ e_acute @ ''es pour '' @ quoted n @ '':'' @
    nl @ nl"
  let ?l1 = "''- Description: '' @ d"
  let ?l2 = "''- Slug: '' @ s"
  let ?l3 = "''- Titre SEO (Yoast): '' @ t"
  let ?l4 = "''- M'' @ e_acute @ ''ta Description (Yoast): '' @ m"
  let ?l5 = "''- Expression-cl'' @ e_acute @ '' principale (Yoast): '' @ k"
  have eq: "msg_metadata n d s t m k = ?h @ ?l1 @ nl @ ?l2 @ nl @ ?l3 @ nl @ ?l4 @ nl @ ?l5"
    by (simp add: msg_metadata_def)
  show "sublist ?l1 (msg_metadata n d s t m k)"
    unfolding eq by (rule sublist_mid)
  have "sublist ?l2 ((?h @ ?l1 @ nl) @ ?l2 @ (nl @ ?l3 @ nl @ ?l4 @ nl @ ?l5))"
    by (rule sublist_mid)
  then show "sublist ?l2 (msg_metadata n d s t m k)"
    by (simp add: eq)
  have "sublist ?l3 ((?h @ ?l1 @ nl @ ?l2 @ nl) @ ?l3 @ (nl @ ?l4 @ nl @ ?l5))"
    by (rule sublist_mid)
  then show "sublist ?l3 (msg_metadata n d s t m k)"
    by (simp add: eq)
  have "sublist ?l4 ((?h @ ?l1 @ nl @ ?l2 @ nl @ ?l3 @ nl) @ ?l4 @ (nl @ ?l5))"
    by (rule sublist_mid)
  then show "sublist ?l4 (msg_metadata n d s t m k)"
    by (simp add: eq)
  have "sublist ?l5 ((?h @ ?l1 @ nl @ ?l2 @ nl @ ?l3 @ nl @ ?l4 @ nl) @ ?l5 @ [])"
    by (rule sublist_mid)
  then show "sublist ?l5 (msg_metadata n d s t m k)"
    by (simp add: eq)
qed

lemma sample_get_request:
  assumes "to_lower (cat_name c) = ''shoes''"
  shows "exact_request ''GET_CATEGORY_METADATA'' nat_num sample_directory [c]
     (action_json ''GET_CATEGORY_METADATA'' [(''categoryName'', JStr ''shoes'')])
     (JObj [(''categoryName'', JStr ''shoes'')]) (JStr ''shoes'') c"
proof -
  have "to_lower ''shoes'' = ''shoes''"
    by (simp add: to_lower_def lower_char_def)
  then show ?thesis
    using assms
    by (simp add: exact_request_def action_json_def sample_directory_def directory_def
        resolve_def lookup_of_def)
qed

lemma shoes_lower: "to_lower ''Shoes'' = ''shoes''"
  by (simp add: to_lower_def lower_char_def)

lemma placeholder_texts:
  "non_defini = ''Non d'' @ [CHR 0xC3, CHR 0xA9] @ ''fini''"
  "non_definie = ''Non d'' @ [CHR 0xC3, CHR 0xA9] @ ''finie''"
  by (simp_all add: non_defini_def non_definie_def e_acute_def)

lemma opt_or_set: "x \<noteq> [] \<Longrightarrow> opt_or (Some x) d = x"
  by (simp add: opt_or_def str_or_def)

text \<open>
  C6. When a read action resolves to an exact match, the response is the metadata
  message of the category. It holds the five labelled lines (description, slug, SEO
  title, SEO meta description, focus keyphrase). The value behind each label is the
  field of the category when that field is set, and the placeholder
  (\<open>Non defini\<close> or \<open>Non definie\<close>, with their accents) when it is missing: an empty
  description or slug, an absent Yoast record, an absent SEO field. It is never
  empty.
\<close>

theorem get_metadata_all_fields:
  fixes c :: wp_category
  defines "d \<equiv> str_or (cat_description c) non_definie"
    and "s \<equiv> str_or (cat_slug c) non_defini"
    and "t \<equiv> opt_or (head_title c) non_defini"
    and "m \<equiv> opt_or (head_description c) non_definie"
    and "k \<equiv> opt_or (yoast_wpseo_focuskw c) non_definie"
  assumes "exact_request ''GET_CATEGORY_METADATA'' ops sv st parsed payload cn c"
  shows "result (dispatch ops sv st parsed) = Responded (msg_metadata (cat_name c) d s t m k) \<and>
         sublist (''- Description: '' @ d) (msg_metadata (cat_name c) d s t m k) \<and>
         sublist (''- Slug: '' @ s) (msg_metadata (cat_name c) d s t m k) \<and>
         sublist (''- Titre SEO (Yoast): '' @ t) (msg_metadata (cat_name c) d s t m k) \<and>
         sublist (''- M'' @ [CHR 0xC3, CHR 0xA9] @ ''ta Description (Yoast): '' @ m)
           (msg_metadata (cat_name c) d s t m k) \<and>
         sublist (''- Expression-cl'' @ [CHR 0xC3, CHR 0xA9] @ '' principale (Yoast): '' @ k)
           (msg_metadata (cat_name c) d s t m k) \<and>
         d \<noteq> [] \<and> s \<noteq> [] \<and> t \<noteq> [] \<and> m \<noteq> [] \<and> k \<noteq> [] \<and>
         (cat_description c \<noteq> [] \<longrightarrow> d = cat_description c) \<and>
         (cat_slug c \<noteq> [] \<longrightarrow> s = cat_slug c) \<and>
         (\<forall>h x. yoast_head_json c = Some h \<and> yh_title h = Some x \<and> x \<noteq> [] \<longrightarrow> t = x) \<and>
         (\<forall>h x. yoast_head_json c = Some h \<and> yh_description h = Some x \<and> x \<noteq> [] \<longrightarrow> m = x) \<and>
         (\<forall>x. yoast_wpseo_focuskw c = Some x \<and> x \<noteq> [] \<longrightarrow> k = x) \<and>
         (cat_description c = [] \<longrightarrow> d = non_definie) \<and>
         (cat_slug c = [] \<longrightarrow> s = non_defini) \<and>
         (yoast_head_json c = None \<longrightarrow> t = non_defini \<and> m = non_definie) \<and>
         (\<forall>h. yoast_head_json c = Some h \<and> yh_title h = None \<longrightarrow> t = non_defini) \<and>
         (\<forall>h. yoast_head_json c = Some h \<and> yh_description h = None \<longrightarrow> m = non_definie) \<and>
         (yoast_wpseo_focuskw c = None \<longrightarrow> k = non_definie) \<and>
         non_defini = ''Non d'' @ [CHR 0xC3, CHR 0xA9] @ ''fini'' \<and>
         non_definie = ''Non d'' @ [CHR 0xC3, CHR 0xA9] @ ''finie''"
proof -
  have "result (dispatch ops sv st parsed) = Responded (metadata_response c)"
    by (simp add: get_request_dispatch [OF assms(6)] responded_def)
  then have "result (dispatch ops sv st parsed) = Responded (msg_metadata (cat_name c) d s t m k)"
    by (simp add: metadata_response_def Let_def d_def s_def t_def m_def k_def)
  moreover have "d \<noteq> []" "s \<noteq> []" "t \<noteq> []" "m \<noteq> []" "k \<noteq> []"
    by (simp_all add: d_def s_def t_def m_def k_def str_or_nonempty opt_or_nonempty
        non_defini_nonempty)
  moreover have "cat_description c \<noteq> [] \<longrightarrow> d = cat_description c"
    "cat_slug c \<noteq> [] \<longrightarrow> s = cat_slug c"
    "cat_description c = [] \<longrightarrow> d = non_definie" "cat_slug c = [] \<longrightarrow> s = non_defini"
    by (simp_all add: d_def s_def str_or_def)
  moreover have "\<forall>h x. yoast_head_json c = Some h \<and> yh_title h = Some x \<and> x \<noteq> [] \<longrightarrow> t = x"
    "\<forall>h x. yoast_head_json c = Some h \<and> yh_description h = Some x \<and> x \<noteq> [] \<longrightarrow> m = x"
    "\<forall>x. yoast_wpseo_focuskw c = Some x \<and> x \<noteq> [] \<longrightarrow> k = x"
    by (simp_all add: t_def m_def k_def head_title_def head_description_def opt_or_set)
  moreover have "yoast_head_json c = None \<longrightarrow> t = non_defini \<and> m = non_definie"
    "\<forall>h. yoast_head_json c = Some h \<and> yh_title h = None \<longrightarrow> t = non_defini"
    "\<forall>h. yoast_head_json c = Some h \<and> yh_description h = None \<longrightarrow> m = non_definie"
    "yoast_wpseo_focuskw c = None \<longrightarrow> k = non_definie"
    by (simp_all add: t_def m_def k_def head_title_def head_description_def opt_or_def)
  moreover note
    msg_metadata_lines [where n = "cat_name c" and d = d and s = s and t = t and m = m and k = k,
      unfolded e_acute_def]
  moreover note placeholder_texts
  ultimately show ?thesis
    by blast
qed

theorem get_metadata_all_fields_witness:
  "exact_request ''GET_CATEGORY_METADATA'' nat_num sample_directory [full_shoes]
     (action_json ''GET_CATEGORY_METADATA'' [(''categoryName'', JStr ''shoes'')])
     (JObj [(''categoryName'', JStr ''shoes'')]) (JStr ''shoes'') full_shoes \<and>
   result (dispatch nat_num sample_directory [full_shoes]
     (action_json ''GET_CATEGORY_METADATA'' [(''categoryName'', JStr ''shoes'')])) =
     Responded (msg_metadata ''Shoes'' ''Footwear'' ''shoes'' ''Shoes | Shop'' ''Great shoes''
       ''sneakers'') \<and>
   exact_request ''GET_CATEGORY_METADATA'' nat_num sample_directory [bare_category 1 ''Shoes'']
     (action_json ''GET_CATEGORY_METADATA'' [(''categoryName'', JStr ''shoes'')])
     (JObj [(''categoryName'', JStr ''shoes'')]) (JStr ''shoes'') (bare_category 1 ''Shoes'') \<and>
   result (dispatch nat_num sample_directory [bare_category 1 ''Shoes'']
     (action_json ''GET_CATEGORY_METADATA'' [(''categoryName'', JStr ''shoes'')])) =
     Responded (msg_metadata ''Shoes''
       (''Non d'' @ [CHR 0xC3, CHR 0xA9] @ ''finie'') (''Non d'' @ [CHR 0xC3, CHR 0xA9] @ ''fini'')
       (''Non d'' @ [CHR 0xC3, CHR 0xA9] @ ''fini'') (''Non d'' @ [CHR 0xC3, CHR 0xA9] @ ''finie'')
       (''Non d'' @ [CHR 0xC3, CHR 0xA9] @ ''finie''))"
proof -
  let ?a = "action_json ''GET_CATEGORY_METADATA'' [(''categoryName'', JStr ''shoes'')]"
  have h: "exact_request ''GET_CATEGORY_METADATA'' nat_num sample_directory [full_shoes] ?a
     (JObj [(''categoryName'', JStr ''shoes'')]) (JStr ''shoes'') full_shoes"
    by (rule sample_get_request) (simp add: full_shoes_def shoes_lower)
  have h': "exact_request ''GET_CATEGORY_METADATA'' nat_num sample_directory
     [bare_category 1 ''Shoes''] ?a
     (JObj [(''categoryName'', JStr ''shoes'')]) (JStr ''shoes'') (bare_category 1 ''Shoes'')"
    by (rule sample_get_request) (simp add: bare_category_def shoes_lower)
  have r: "result (dispatch nat_num sample_directory [full_shoes] ?a) =
     Responded (msg_metadata ''Shoes'' ''Footwear'' ''shoes'' ''Shoes | Shop'' ''Great shoes''
       ''sneakers'')"
    using get_metadata_all_fields [OF h, THEN conjunct1]
    by (simp add: full_shoes_def head_title_def head_description_def str_or_def opt_or_def)
  have r': "result (dispatch nat_num sample_directory [bare_category 1 ''Shoes''] ?a) =
     Responded (msg_metadata ''Shoes''
       (''Non d'' @ [CHR 0xC3, CHR 0xA9] @ ''finie'') (''Non d'' @ [CHR 0xC3, CHR 0xA9] @ ''fini'')
       (''Non d'' @ [CHR 0xC3, CHR 0xA9] @ ''fini'') (''Non d'' @ [CHR 0xC3, CHR 0xA9] @ ''finie'')
       (''Non d'' @ [CHR 0xC3, CHR 0xA9] @ ''finie''))"
    using get_metadata_all_fields [OF h', THEN conjunct1]
    by (simp add: bare_category_def head_title_def head_description_def str_or_def opt_or_def
        non_defini_def non_definie_def e_acute_def)
  show ?thesis
    using h h' r r' by blast
qed

text \<open>
  C10. When a read action resolves to an exact match, each field is read on its own:
  a description or slug that is empty, and an SEO title, SEO meta description or focus
  keyphrase that is present and empty, is shown as the placeholder, which is also what
  an absent SEO field shows. For the three SEO fields the response is the one of the
  same category with that field absent, whatever the other fields hold.
\<close>

theorem get_empty_rendered_as_absent:
  fixes c :: wp_category
  defines "d \<equiv> str_or (cat_description c) non_definie"
    and "s \<equiv> str_or (cat_slug c) non_defini"
    and "t \<equiv> opt_or (head_title c) non_defini"
    and "m \<equiv> opt_or (head_description c) non_definie"
    and "k \<equiv> opt_or (yoast_wpseo_focuskw c) non_definie"
  assumes "exact_request ''GET_CATEGORY_METADATA'' ops sv st parsed payload cn c"
  shows "result (dispatch ops sv st parsed) = Responded (msg_metadata (cat_name c) d s t m k) \<and>
         (cat_description c = [] \<longrightarrow> d = non_definie) \<and>
         (cat_slug c = [] \<longrightarrow> s = non_defini) \<and>
         (\<forall>h. yoast_head_json c = Some h \<and> yh_title h \<in> {None, Some []} \<longrightarrow> t = non_defini) \<and>
         (\<forall>h. yoast_head_json c = Some h \<and> yh_description h \<in> {None, Some []} \<longrightarrow>
            m = non_definie) \<and>
         (yoast_head_json c = None \<longrightarrow> t = non_defini \<and> m = non_definie) \<and>
         (yoast_wpseo_focuskw c \<in> {None, Some []} \<longrightarrow> k = non_definie) \<and>
         (\<forall>h. yoast_head_json c = Some h \<and> yh_title h = Some [] \<longrightarrow>
            result (dispatch ops sv st parsed) =
              Responded (metadata_response (c\<lparr>yoast_head_json := Some (h\<lparr>yh_title := None\<rparr>)\<rparr>))) \<and>
         (\<forall>h. yoast_head_json c = Some h \<and> yh_description h = Some [] \<longrightarrow>
            result (dispatch ops sv st parsed) =
              Responded
                (metadata_response (c\<lparr>yoast_head_json := Some (h\<lparr>yh_description := None\<rparr>)\<rparr>))) \<and>
         (yoast_wpseo_focuskw c = Some [] \<longrightarrow>
            result (dispatch ops sv st parsed) =
              Responded (metadata_response (c\<lparr>yoast_wpseo_focuskw := None\<rparr>))) \<and>
         non_defini = ''Non d'' @ [CHR 0xC3, CHR 0xA9] @ ''fini'' \<and>
         non_definie = ''Non d'' @ [CHR 0xC3, CHR 0xA9] @ ''finie''"
proof -
  have r: "result (dispatch ops sv st parsed) = Responded (metadata_response c)"
    by (simp add: get_request_dispatch [OF assms(6)] responded_def)
  then have "result (dispatch ops sv st parsed) = Responded (msg_metadata (cat_name c) d s t m k)"
    by (simp add: metadata_response_def Let_def d_def s_def t_def m_def k_def)
  moreover have "cat_description c = [] \<longrightarrow> d = non_definie" "cat_slug c = [] \<longrightarrow> s = non_defini"
    by (simp_all add: d_def s_def str_or_def)
  moreover have
    "\<forall>h. yoast_head_json c = Some h \<and> yh_title h \<in> {None, Some []} \<longrightarrow> t = non_defini"
    "\<forall>h. yoast_head_json c = Some h \<and> yh_description h \<in> {None, Some []} \<longrightarrow> m = non_definie"
    "yoast_head_json c = None \<longrightarrow> t = non_defini \<and> m = non_definie"
    "yoast_wpseo_focuskw c \<in> {None, Some []} \<longrightarrow> k = non_definie"
    by (auto simp: t_def m_def k_def head_title_def head_description_def opt_or_def str_or_def)
  moreover have "\<forall>h. yoast_head_json c = Some h \<and> yh_title h = Some [] \<longrightarrow>
      metadata_response c = metadata_response (c\<lparr>yoast_head_json := Some (h\<lparr>yh_title := None\<rparr>)\<rparr>)"
    by (simp add: metadata_response_def Let_def head_title_def head_description_def opt_or_def
        str_or_def)
  moreover have "\<forall>h. yoast_head_json c = Some h \<and> yh_description h = Some [] \<longrightarrow>
      metadata_response c =
      metadata_response (c\<lparr>yoast_head_json := Some (h\<lparr>yh_description := None\<rparr>)\<rparr>)"
    by (simp add: metadata_response_def Let_def head_title_def head_description_def opt_or_def
        str_or_def)
  moreover have "yoast_wpseo_focuskw c = Some [] \<longrightarrow>
      metadata_response c = metadata_response (c\<lparr>yoast_wpseo_focuskw := None\<rparr>)"
    by (simp add: metadata_response_def Let_def head_title_def head_description_def opt_or_def
        str_or_def)
  moreover note placeholder_texts
  ultimately show ?thesis
    using r by simp
qed

theorem get_empty_rendered_as_absent_witness:
  "exact_request ''GET_CATEGORY_METADATA'' nat_num sample_directory [titled_shoes]
     (action_json ''GET_CATEGORY_METADATA'' [(''categoryName'', JStr ''shoes'')])
     (JObj [(''categoryName'', JStr ''shoes'')]) (JStr ''shoes'') titled_shoes \<and>
   yoast_head_json titled_shoes = Some \<lparr>yh_title = Some ''T'', yh_description = Some []\<rparr> \<and>
   result (dispatch nat_num sample_directory [titled_shoes]
     (action_json ''GET_CATEGORY_METADATA'' [(''categoryName'', JStr ''shoes'')])) =
     Responded (msg_metadata ''Shoes''
       (''Non d'' @ [CHR 0xC3, CHR 0xA9] @ ''finie'') (''Non d'' @ [CHR 0xC3, CHR 0xA9] @ ''fini'')
       ''T'' (''Non d'' @ [CHR 0xC3, CHR 0xA9] @ ''finie'')
       (''Non d'' @ [CHR 0xC3, CHR 0xA9] @ ''finie'')) \<and>
   result (dispatch nat_num sample_directory [titled_shoes]
     (action_json ''GET_CATEGORY_METADATA'' [(''categoryName'', JStr ''shoes'')])) =
     Responded (metadata_response
       (titled_shoes\<lparr>yoast_head_json := Some \<lparr>yh_title = Some ''T'', yh_description = None\<rparr>\<rparr>))"
proof -
  let ?a = "action_json ''GET_CATEGORY_METADATA'' [(''categoryName'', JStr ''shoes'')]"
  let ?h = "\<lparr>yh_title = Some ''T'', yh_description = Some []\<rparr>"
  have h: "exact_request ''GET_CATEGORY_METADATA'' nat_num sample_directory [titled_shoes] ?a
     (JObj [(''categoryName'', JStr ''shoes'')]) (JStr ''shoes'') titled_shoes"
    by (rule sample_get_request) (simp add: titled_shoes_def bare_category_def shoes_lower)
  have y: "yoast_head_json titled_shoes = Some ?h"
    by (simp add: titled_shoes_def bare_category_def)
  note w = get_empty_rendered_as_absent [OF h]
  have r: "result (dispatch nat_num sample_directory [titled_shoes] ?a) =
     Responded (msg_metadata ''Shoes''
       (''Non d'' @ [CHR 0xC3, CHR 0xA9] @ ''finie'') (''Non d'' @ [CHR 0xC3, CHR 0xA9] @ ''fini'')
       ''T'' (''Non d'' @ [CHR 0xC3, CHR 0xA9] @ ''finie'')
       (''Non d'' @ [CHR 0xC3, CHR 0xA9] @ ''finie''))"
    using w [THEN conjunct1]
    by (simp add: titled_shoes_def bare_category_def head_title_def head_description_def
        str_or_def opt_or_def non_defini_def non_definie_def e_acute_def)
  have "\<forall>h. yoast_head_json titled_shoes = Some h \<and> yh_description h = Some [] \<longrightarrow>
      result (dispatch nat_num sample_directory [titled_shoes] ?a) =
      Responded
        (metadata_response (titled_shoes\<lparr>yoast_head_json := Some (h\<lparr>yh_description := None\<rparr>)\<rparr>))"
    using w by blast
  then have r': "result (dispatch nat_num sample_directory [titled_shoes] ?a) =
     Responded (metadata_response
       (titled_shoes\<lparr>yoast_head_json := Some \<lparr>yh_title = Some ''T'', yh_description = None\<rparr>\<rparr>))"
    using y by simp
  show ?thesis
    using h y r r' by blast
qed

section \<open>Listing, and the copy action\<close>

text \<open>
  C4. On an empty catalog the list action answers with the heading of the list
  followed by one bullet that names nothing; the dispatcher has no message for an
  empty catalog.
\<close>

theorem list_empty_catalog:
  assumes "property parsed ''action'' = Some (JStr ''LIST_CATEGORIES'')"
    and "getCategories sv st = Inr []"
  shows "result (dispatch ops sv st parsed) =
           Responded (''Voici les '' @ categorie @ ''s de produits trouv'' @ e_acute @ ''es : '' @
                      nl @ nl @ '' - '')"
proof -
  have "parsed \<noteq> JNull"
    using assms(1) by auto
  then show ?thesis
    using assms by (simp add: dispatch_def list_categories_def responded_def msg_list_def)
qed

theorem list_empty_catalog_witness:
  "property (JObj [(''action'', JStr ''LIST_CATEGORIES'')] :: nat json) ''action'' =
     Some (JStr ''LIST_CATEGORIES'') \<and>
   getCategories sample_directory [] = Inr [] \<and>
   result (dispatch nat_num sample_directory [] (JObj [(''action'', JStr ''LIST_CATEGORIES'')])) =
     Responded (''Voici les '' @ categorie @ ''s de produits trouv'' @ e_acute @ ''es : '' @
                nl @ nl @ '' - '')"
proof -
  have a: "property (JObj [(''action'', JStr ''LIST_CATEGORIES'')] :: nat json) ''action'' =
     Some (JStr ''LIST_CATEGORIES'')"
    by simp
  have g: "getCategories sample_directory [] = Inr []"
    by (simp add: sample_directory_def directory_def)
  from list_empty_catalog [OF a g, of nat_num] show ?thesis
    using a g by simp
qed

text \<open>
  C5. The copy action with a readable payload leaves the dispatcher without a
  response, calls no service (neither the name lookup nor the update) and leaves the
  site as it was, whatever the category name is.
\<close>

theorem copy_does_nothing:
  assumes "property parsed ''action'' = Some (JStr ''COPY_YOAST_META_DESC_TO_DESC'')"
    and "property parsed ''payload'' = Some payload" and "payload \<noteq> JNull"
  shows "dispatch ops sv st parsed = \<lparr>result = NoResponse, calls = [], site = st\<rparr>"
proof -
  have "parsed \<noteq> JNull"
    using assms(1) by auto
  moreover have "object_of (Some payload) = Inr payload"
    using assms(3) by (cases payload) simp_all
  ultimately show ?thesis
    using assms by (simp add: dispatch_def copy_yoast_meta_desc_to_desc_def no_response_def)
qed

theorem copy_does_nothing_witness:
  "property (action_json ''COPY_YOAST_META_DESC_TO_DESC'' [(''categoryName'', JStr ''Shoes'')])
     ''action'' = Some (JStr ''COPY_YOAST_META_DESC_TO_DESC'') \<and>
   property (action_json ''COPY_YOAST_META_DESC_TO_DESC'' [(''categoryName'', JStr ''Shoes'')])
     ''payload'' = Some (JObj [(''categoryName'', JStr ''Shoes'')]) \<and>
   head_description described_shoes = Some ''Great shoes'' \<and>
   cat_description described_shoes = [] \<and>
   dispatch nat_num sample_directory [described_shoes]
     (action_json ''COPY_YOAST_META_DESC_TO_DESC'' [(''categoryName'', JStr ''Shoes'')]) =
     \<lparr>result = NoResponse, calls = [], site = [described_shoes]\<rparr>"
proof -
  let ?a = "action_json ''COPY_YOAST_META_DESC_TO_DESC'' [(''categoryName'', JStr ''Shoes'')]"
  have a: "property ?a ''action'' = Some (JStr ''COPY_YOAST_META_DESC_TO_DESC'')"
    by (simp add: action_json_def)
  have b: "property ?a ''payload'' = Some (JObj [(''categoryName'', JStr ''Shoes'')])"
    by (simp add: action_json_def)
  have c: "JObj [(''categoryName'', JStr ''Shoes'')] \<noteq> (JNull :: nat json)"
    by simp
  have d: "head_description described_shoes = Some ''Great shoes''"
    "cat_description described_shoes = []"
    by (simp_all add: described_shoes_def bare_category_def head_description_def)
  from copy_does_nothing [OF a b c, of nat_num sample_directory "[described_shoes]"]
  show ?thesis
    using a b d by simp
qed

section \<open>Texts that are no action: the reply\<close>

lemma dispatch_not_recognized:
  assumes "property parsed ''action'' = None \<or>
           (\<exists>a. property parsed ''action'' = Some a \<and> a \<notin> set (map JStr recognized))"
  shows "dispatch ops sv st parsed = thrown TypeError [] st \<or>
         dispatch ops sv st parsed = no_response [] st"
  using assms by (auto simp: dispatch_def recognized_def)

text \<open>
  C8. Whatever the text of the LLM is, handling it yields a value. When the text does
  not decode, or carries no action or an unrecognized one, no service is called, the
  site is left as it was, the dispatcher ends without a response or with the error of
  the decoding or of a property read, and the reply shown to the user is the text
  itself.
\<close>

theorem no_op_is_plain_reply:
  assumes "no_op_text ops json_parse text"
  shows "calls (handle_response ops json_parse sv st text) = [] \<and>
         site (handle_response ops json_parse sv st text) = st \<and>
         result (handle_response ops json_parse sv st text) \<in>
           {NoResponse, Thrown SyntaxError, Thrown TypeError} \<and>
         reply apology text (result (handle_response ops json_parse sv st text)) = text"
proof (cases "json_parse text")
  case None
  then show ?thesis
    by (simp add: handle_response_def thrown_def reply_def)
next
  case (Some parsed)
  then have "property parsed ''action'' = None \<or>
      (\<exists>a. property parsed ''action'' = Some a \<and> a \<notin> set (map JStr recognized))"
    using assms by (auto simp: no_op_text_def split: option.splits)
  from dispatch_not_recognized [OF this, of ops sv st] show ?thesis
    using Some by (auto simp: handle_response_def thrown_def no_response_def reply_def)
qed

theorem no_op_is_plain_reply_witness:
  "no_op_text nat_num sample_parse ''Bonjour !'' \<and>
   no_op_text nat_num sample_parse dance_text \<and>
   no_op_text nat_num sample_parse ''{}'' \<and>
   no_op_text nat_num sample_parse ''null'' \<and>
   handle_response nat_num sample_parse sample_directory shoes_catalog ''Bonjour !'' =
     \<lparr>result = Thrown SyntaxError, calls = [], site = shoes_catalog\<rparr> \<and>
   handle_response nat_num sample_parse sample_directory shoes_catalog dance_text =
     \<lparr>result = NoResponse, calls = [], site = shoes_catalog\<rparr> \<and>
   handle_response nat_num sample_parse sample_directory shoes_catalog ''{}'' =
     \<lparr>result = NoResponse, calls = [], site = shoes_catalog\<rparr> \<and>
   handle_response nat_num sample_parse sample_directory shoes_catalog ''null'' =
     \<lparr>result = Thrown TypeError, calls = [], site = shoes_catalog\<rparr> \<and>
   reply ''Pardon.'' dance_text
     (result (handle_response nat_num sample_parse sample_directory shoes_catalog dance_text)) =
     dance_text"
proof -
  have h: "no_op_text nat_num sample_parse dance_text"
    by (simp add: no_op_text_def sample_parse_def recognized_def)
  have hs: "no_op_text nat_num sample_parse ''Bonjour !''" "no_op_text nat_num sample_parse ''{}''"
    "no_op_text nat_num sample_parse ''null''"
    by (simp_all add: no_op_text_def sample_parse_def recognized_def dance_text_def dq_def)
  have r: "handle_response nat_num sample_parse sample_directory shoes_catalog ''Bonjour !'' =
     \<lparr>result = Thrown SyntaxError, calls = [], site = shoes_catalog\<rparr>"
    "handle_response nat_num sample_parse sample_directory shoes_catalog dance_text =
     \<lparr>result = NoResponse, calls = [], site = shoes_catalog\<rparr>"
    "handle_response nat_num sample_parse sample_directory shoes_catalog ''{}'' =
     \<lparr>result = NoResponse, calls = [], site = shoes_catalog\<rparr>"
    "handle_response nat_num sample_parse sample_directory shoes_catalog ''null'' =
     \<lparr>result = Thrown TypeError, calls = [], site = shoes_catalog\<rparr>"
    by (simp_all add: handle_response_def sample_parse_def dispatch_def thrown_def no_response_def
        dance_text_def dq_def nat_num_def)
  from no_op_is_plain_reply [OF h, of sample_directory shoes_catalog "''Pardon.''"]
  show ?thesis
    using h hs r by simp
qed

section \<open>The name resolver\<close>

text \<open>
  C3. When some category of the catalog has a name whose normal form is that of the
  query, \<open>resolve\<close> returns the exact match for the first such category in catalog
  order; the result is no list of suggestions, and the object handed to the dispatcher
  carries that category with an empty list of suggestions.
\<close>

theorem resolve_exact_first:
  assumes "c \<in> set categories" and "normal (cat_name c) = normal q"
  shows "\<exists>i < length categories.
           normal (cat_name (categories ! i)) = normal q \<and>
           (\<forall>j < i. normal (cat_name (categories ! j)) \<noteq> normal q) \<and>
           resolve normal suggest categories q = ExactMatch (categories ! i) \<and>
           (\<forall>cs. resolve normal suggest categories q \<noteq> Suggestions cs) \<and>
           lookup_of (resolve normal suggest categories q) =
             \<lparr>exactMatch = Some (categories ! i), suggestions = []\<rparr>"
proof -
  let ?P = "\<lambda>c. normal (cat_name c) = normal q"
  have "find ?P categories \<noteq> None"
    using assms by (auto simp: find_None_iff)
  then obtain m where m: "find ?P categories = Some m"
    by blast
  then obtain i where i: "i < length categories" "?P (categories ! i)" "m = categories ! i"
    "\<forall>j < i. \<not> ?P (categories ! j)"
    by (auto simp: find_Some_iff)
  have "resolve normal suggest categories q = ExactMatch (categories ! i)"
    using m i(3) by (simp add: resolve_def)
  then show ?thesis
    using i by (auto simp: lookup_of_def)
qed

theorem resolve_exact_first_witness:
  "bare_category 3 ''SHOES'' \<in>
     set [bare_category 2 ''Shirts'', bare_category 1 ''Shoes'', bare_category 3 ''SHOES''] \<and>
   to_lower (cat_name (bare_category 3 ''SHOES'')) = to_lower ''shoes'' \<and>
   resolve to_lower no_suggestions
     [bare_category 2 ''Shirts'', bare_category 1 ''Shoes'', bare_category 3 ''SHOES''] ''shoes'' =
     ExactMatch (bare_category 1 ''Shoes'') \<and>
   lookup_of (resolve to_lower no_suggestions
     [bare_category 2 ''Shirts'', bare_category 1 ''Shoes'', bare_category 3 ''SHOES''] ''shoes'') =
     \<lparr>exactMatch = Some (bare_category 1 ''Shoes''), suggestions = []\<rparr>"
proof -
  let ?cs = "[bare_category 2 ''Shirts'', bare_category 1 ''Shoes'', bare_category 3 ''SHOES'']"
  have a: "bare_category 3 ''SHOES'' \<in> set ?cs"
    by simp
  have b: "to_lower (cat_name (bare_category 3 ''SHOES'')) = to_lower ''shoes''"
    by (simp add: to_lower_def lower_char_def bare_category_def)
  obtain i where i: "i < length ?cs"
      "to_lower (cat_name (?cs ! i)) = to_lower ''shoes''"
      "\<forall>j < i. to_lower (cat_name (?cs ! j)) \<noteq> to_lower ''shoes''"
      "resolve to_lower no_suggestions ?cs ''shoes'' = ExactMatch (?cs ! i)"
      "lookup_of (resolve to_lower no_suggestions ?cs ''shoes'') =
         \<lparr>exactMatch = Some (?cs ! i), suggestions = []\<rparr>"
    using resolve_exact_first [OF a b, of no_suggestions] by blast
  have "i = 1"
  proof -
    have "i < 3" using i(1) by simp
    then consider "i = 0" | "i = 1" | "i = 2" by linarith
    then show ?thesis
    proof cases
      case 1
      then show ?thesis
        using i(2) by (simp add: to_lower_def lower_char_def bare_category_def)
    next
      case 2
      then show ?thesis .
    next
      case 3
      then have "(1::nat) < i"
        by simp
      with i(3) have "to_lower (cat_name (?cs ! 1)) \<noteq> to_lower ''shoes''"
        by blast
      then show ?thesis
        by (simp add: to_lower_def lower_char_def bare_category_def)
    qed
  qed
  then show ?thesis
    using a b i(4,5) by simp
qed

section \<open>Running an update twice: the patch on the directory\<close>

lemma msg_updated_split: "msg_updated n = updated_head @ n @ updated_tail"
  by (simp add: msg_updated_def updated_head_def updated_tail_def quoted_def)

lemma is_updated_msg_updated: "is_updated_msg (msg_updated n)"
proof -
  have "suffix updated_tail ((updated_head @ n) @ updated_tail)"
    by (rule suffixI) simp
  then show ?thesis
    by (simp add: is_updated_msg_def msg_updated_split)
qed

lemma is_updated_msg_iff: "is_updated_msg s \<longleftrightarrow> (\<exists>n. s = msg_updated n)"
proof
  assume a: "is_updated_msg s"
  then obtain r where r: "s = updated_head @ r"
    by (auto simp: is_updated_msg_def prefix_def)
  from a obtain l where l: "s = l @ updated_tail"
    by (auto simp: is_updated_msg_def suffix_def)
  have "length updated_tail \<le> length r"
    using a r by (simp add: is_updated_msg_def)
  then have "suffix updated_tail r"
    using r l by (metis suffixI suffix_length_suffix)
  then obtain n where "r = n @ updated_tail"
    by (auto simp: suffix_def)
  then show "\<exists>n. s = msg_updated n"
    using r by (auto simp: msg_updated_split)
next
  assume "\<exists>n. s = msg_updated n"
  then show "is_updated_msg s"
    by (auto simp: is_updated_msg_updated)
qed

lemma not_updated_nothing: "\<not> is_updated_msg msg_nothing"
  by (simp add: is_updated_msg_def msg_nothing_def updated_head_def)

lemma not_updated_failed: "\<not> is_updated_msg (msg_update_failed n)"
  by (simp add: is_updated_msg_def msg_update_failed_def updated_head_def)

lemma not_updated_not_found: "\<not> is_updated_msg (msg_not_found_update n)"
  by (simp add: is_updated_msg_def msg_not_found_update_def updated_head_def)

lemma set_field_cases:
  assumes "set_field (k, JStr s) c = Some c1"
  shows "(k = ''description'' \<and> c1 = c\<lparr>cat_description := s\<rparr>) \<or>
         (k = ''name'' \<and> c1 = c\<lparr>cat_name := s\<rparr>) \<or>
         (k = ''slug'' \<and> c1 = c\<lparr>cat_slug := s\<rparr>) \<or>
         (k = ''_yoast_wpseo_title'' \<and> c1 = c\<lparr>yoast_wpseo_title := Some s\<rparr>) \<or>
         (k = ''_yoast_wpseo_metadesc'' \<and> c1 = c\<lparr>yoast_wpseo_metadesc := Some s\<rparr>) \<or>
         (k = ''_yoast_wpseo_focuskw'' \<and> c1 = c\<lparr>yoast_wpseo_focuskw := Some s\<rparr>)"
proof -
  have eq: "set_field (k, JStr s) c =
      (if k = ''description'' then Some (c\<lparr>cat_description := s\<rparr>)
       else if k = ''name'' then Some (c\<lparr>cat_name := s\<rparr>)
       else if k = ''slug'' then Some (c\<lparr>cat_slug := s\<rparr>)
       else if k = ''_yoast_wpseo_title'' then Some (c\<lparr>yoast_wpseo_title := Some s\<rparr>)
       else if k = ''_yoast_wpseo_metadesc'' then Some (c\<lparr>yoast_wpseo_metadesc := Some s\<rparr>)
       else if k = ''_yoast_wpseo_focuskw'' then Some (c\<lparr>yoast_wpseo_focuskw := Some s\<rparr>)
       else None)"
    by (simp add: set_field_def)
  show ?thesis
    using assms unfolding eq by (simp split: if_splits)
qed


lemma set_field_other_str:
  assumes "set_field (k, JStr s) c = Some c1" and "k' \<noteq> k"
  shows "field_value k' c1 = field_value k' c"
  using set_field_cases [OF assms(1)] assms(2)
  by (elim disjE conjE) (simp_all add: field_value_def)

lemma set_field_str: "set_field (k, v) c = Some c1 \<Longrightarrow> \<exists>s. v = JStr s"
  by (cases v) (simp_all add: set_field_def)

lemma set_field_value_str:
  assumes "set_field (k, JStr s) c = Some c1"
  shows "field_value k c1 = Some s"
  using set_field_cases [OF assms]
  by (elim disjE conjE) (simp_all add: field_value_def)

lemma set_field_other:
  assumes "set_field (k, v) c = Some c1" and "k' \<noteq> k"
  shows "field_value k' c1 = field_value k' c"
proof -
  obtain s where "v = JStr s"
    using set_field_str [OF assms(1)] by blast
  then show ?thesis
    using assms set_field_other_str by blast
qed

lemma set_field_same:
  assumes "field_value k c = Some s"
  shows "set_field (k, JStr s) c = Some c"
proof -
  have "k \<in> {''description'', ''name'', ''slug'', ''_yoast_wpseo_title'',
      ''_yoast_wpseo_metadesc'', ''_yoast_wpseo_focuskw''}"
    using assms by (simp add: field_value_def split: if_splits)
  then show ?thesis
    using assms by (elim insertE emptyE) (simp_all add: field_value_def set_field_def)
qed

lemma set_field_id: 
  assumes "set_field (k, v) c = Some c1" 
  shows "cat_id c1 = cat_id c"
proof -
  obtain s where s: "v = JStr s"
    using set_field_str [OF assms(1)] by blast
  from set_field_cases [OF assms [unfolded s]] show ?thesis
    by (elim disjE conjE) simp_all
qed

lemma apply_patch_other:
  "apply_patch p c = Some c' \<Longrightarrow> k \<notin> fst ` set p \<Longrightarrow> field_value k c' = field_value k c"
proof (induction p arbitrary: c)
  case Nil
  then show ?case by simp
next
  case (Cons kv p)
  obtain k0 v0 where kv: "kv = (k0, v0)"
    by (cases kv)
  from Cons.prems(1) obtain c1 where c1: "set_field kv c = Some c1" "apply_patch p c1 = Some c'"
    by (auto split: option.splits)
  have "field_value k c' = field_value k c1"
    using Cons.IH [OF c1(2)] Cons.prems(2) by simp
  also have "\<dots> = field_value k c"
    using set_field_other [of k0 v0 c c1 k] c1(1) kv Cons.prems(2) by auto
  finally show ?case .
qed

lemma apply_patch_id: "apply_patch p c = Some c' \<Longrightarrow> cat_id c' = cat_id c"
proof (induction p arbitrary: c)
  case Nil
  then show ?case by simp
next
  case (Cons kv p)
  obtain k0 v0 where kv: "kv = (k0, v0)"
    by (cases kv)
  from Cons.prems(1) obtain c1 where c1: "set_field kv c = Some c1" "apply_patch p c1 = Some c'"
    by (auto split: option.splits)
  show ?case
    using Cons.IH [OF c1(2)] set_field_id [of k0 v0 c c1] c1(1) kv by simp
qed

lemma apply_patch_name:
  assumes "apply_patch p c = Some c'" and "''name'' \<notin> fst ` set p"
  shows "cat_name c' = cat_name c"
  using apply_patch_other [OF assms] by (simp add: field_value_def)

lemma apply_patch_idem:
  "distinct (map fst p) \<Longrightarrow> apply_patch p c = Some c' \<Longrightarrow> apply_patch p c' = Some c'"
proof (induction p arbitrary: c)
  case Nil
  then show ?case by simp
next
  case (Cons kv p)
  obtain k0 v0 where kv: "kv = (k0, v0)"
    by (cases kv)
  from Cons.prems(2) obtain c1 where c1: "set_field kv c = Some c1" "apply_patch p c1 = Some c'"
    by (auto split: option.splits)
  obtain s where s: "v0 = JStr s"
    using set_field_str c1(1) kv by blast
  have "field_value k0 c1 = Some s"
    using set_field_value_str c1(1) kv s by blast
  moreover have "k0 \<notin> fst ` set p"
    using Cons.prems(1) kv by simp
  ultimately have "field_value k0 c' = Some s"
    using apply_patch_other [OF c1(2)] by simp
  then have "set_field kv c' = Some c'"
    using set_field_same kv s by simp
  moreover have "apply_patch p c' = Some c'"
    using Cons.IH [OF _ c1(2)] Cons.prems(1) by simp
  ultimately show ?case
    by simp
qed

lemma patch_all_idem:
  "distinct (map fst p) \<Longrightarrow> patch_all i p cs = Some cs' \<Longrightarrow> patch_all i p cs' = Some cs'"
proof (induction cs arbitrary: cs')
  case Nil
  then show ?case by simp
next
  case (Cons c cs)
  from Cons.prems(2) obtain c' rest where
    c': "(if cat_id c = i then apply_patch p c else Some c) = Some c'"
    and rest: "patch_all i p cs = Some rest" and cs': "cs' = c' # rest"
    by (auto split: option.splits)
  have tl: "patch_all i p rest = Some rest"
    using Cons.IH [OF Cons.prems(1) rest] .
  show ?case
  proof (cases "cat_id c = i")
    case True
    then have a: "apply_patch p c = Some c'"
      using c' by simp
    then have "cat_id c' = i"
      using apply_patch_id True by blast
    moreover have "apply_patch p c' = Some c'"
      using apply_patch_idem [OF Cons.prems(1) a] .
    ultimately show ?thesis
      using tl cs' by simp
  next
    case False
    then have "c' = c"
      using c' by simp
    then show ?thesis
      using False tl cs' by simp
  qed
qed

lemma patch_all_ids: "patch_all i p cs = Some cs' \<Longrightarrow> map cat_id cs' = map cat_id cs"
proof (induction cs arbitrary: cs')
  case Nil
  then show ?case by simp
next
  case (Cons c cs)
  from Cons.prems obtain c' rest where
    c': "(if cat_id c = i then apply_patch p c else Some c) = Some c'"
    and rest: "patch_all i p cs = Some rest" and cs': "cs' = c' # rest"
    by (auto split: option.splits)
  have "cat_id c' = cat_id c"
    using c' apply_patch_id by (auto split: if_splits)
  then show ?case
    using Cons.IH [OF rest] cs' by simp
qed

lemma not_updated_suggest: "\<not> is_updated_msg (msg_suggest_update n suggs)"
  by (simp add: is_updated_msg_def msg_suggest_update_def updated_head_def)

lemma directory_request:
  assumes "exact_request a ops (directory normal suggest) cats parsed payload cn c"
  shows "\<exists>q. cn = JStr q \<and> find (\<lambda>x. normal (cat_name x) = normal q) cats = Some c"
proof (cases cn)
  case (JStr q)
  then show ?thesis
    using assms
    by (auto simp: exact_request_def directory_def resolve_def lookup_of_def
        split: option.splits)
qed (use assms in \<open>simp_all add: exact_request_def directory_def\<close>)

lemma directory_request_moved:
  assumes "exact_request a ops (directory normal suggest) cats parsed payload (JStr q) c"
    and "find (\<lambda>x. normal (cat_name x) = normal q) cats' = Some c'"
  shows "exact_request a ops (directory normal suggest) cats' parsed payload (JStr q) c'"
  using assms
  by (simp add: exact_request_def directory_def resolve_def lookup_of_def)

lemma directory_update_ok:
  assumes "fst (directory_update cats i p) = None"
  shows "i \<in> set (map cat_id cats) \<and> patch_all i p cats = Some (snd (directory_update cats i p))"
  using assms by (auto simp: directory_update_def split: if_splits option.splits)

lemma not_succeeded_failed:
  "\<not> update_succeeded (result (update_failed ops cn cs st))"
  by (cases "to_string ops cn")
     (simp_all add: update_failed_def respond_with_def responded_def thrown_def
        update_succeeded_def not_updated_failed)

lemma update_exact_succeeded:
  assumes "update_succeeded (result (update_exact ops sv st payload cn c))"
  shows "build_patch ops payload \<noteq> [] \<and>
         fst (updateCategoryMetadata sv st (cat_id c) (build_patch ops payload)) = None \<and>
         (\<exists>shown. to_string ops (name_or ops (property payload ''name'') cn) = Inr shown)"
proof (cases "build_patch ops payload = []")
  case True
  then show ?thesis
    using assms
    by (simp add: update_exact_def responded_def update_succeeded_def not_updated_nothing)
next
  case False
  obtain a st' where u: "updateCategoryMetadata sv st (cat_id c) (build_patch ops payload) = (a, st')"
    by (cases "updateCategoryMetadata sv st (cat_id c) (build_patch ops payload)")
  show ?thesis
  proof (cases a)
    case None
    show ?thesis
    proof (cases "to_string ops (name_or ops (property payload ''name'') cn)")
      case (Inl e)
      then show ?thesis
        using assms False u None
        by (simp add: update_exact_def Let_def not_succeeded_failed)
    next
      case (Inr shown)
      then show ?thesis
        using False u None by simp
    qed
  next
    case (Some e)
    then show ?thesis
      using assms False u
      by (simp add: update_exact_def Let_def not_succeeded_failed)
  qed
qed

lemma update_exact_ok:
  assumes "build_patch ops payload \<noteq> []"
    and "updateCategoryMetadata sv st i (build_patch ops payload) = (None, st')"
    and "cat_id c = i"
    and "to_string ops (name_or ops (property payload ''name'') cn) = Inr shown"
  shows "update_exact ops sv st payload cn c =
         responded (msg_updated shown)
           [CallGetCategoryByName cn, CallUpdateCategoryMetadata i (build_patch ops payload)] st'"
  using assms by (simp add: update_exact_def)

lemma apply_patch_sets:
  "distinct (map fst p) \<Longrightarrow> (k, JStr s) \<in> set p \<Longrightarrow> apply_patch p c = Some c' \<Longrightarrow>
   field_value k c' = Some s"
proof (induction p arbitrary: c)
  case Nil
  then show ?case by simp
next
  case (Cons kv p)
  from Cons.prems(3) obtain c1 where c1: "set_field kv c = Some c1" "apply_patch p c1 = Some c'"
    by (auto split: option.splits)
  show ?case
  proof (cases "kv = (k, JStr s)")
    case True
    then have "field_value k c1 = Some s"
      using set_field_value_str c1(1) by blast
    moreover have "k \<notin> fst ` set p"
      using Cons.prems(1) True by simp
    ultimately show ?thesis
      using apply_patch_other [OF c1(2)] by simp
  next
    case False
    then have "(k, JStr s) \<in> set p"
      using Cons.prems(2) by simp
    then show ?thesis
      using Cons.IH [OF _ _ c1(2)] Cons.prems(1) by simp
  qed
qed

lemma apply_patch_renamed:
  assumes "distinct (map fst p)" and "map_of p ''name'' = Some (JStr n')"
    and "apply_patch p c = Some c'"
  shows "cat_name c' = n'"
proof -
  have "(''name'', JStr n') \<in> set p"
    using assms(2) by (rule map_of_SomeD)
  from apply_patch_sets [OF assms(1) this assms(3)] show ?thesis
    by (simp add: field_value_def)
qed

lemma patch_all_find_kept:
  assumes keep: "\<And>x x'. apply_patch p x = Some x' \<Longrightarrow> cat_name x' = cat_name x \<or> f (cat_name x')"
  shows "patch_all i p cs = Some cs' \<Longrightarrow> find (\<lambda>c. f (cat_name c)) cs = Some c \<Longrightarrow>
         cat_id c = i \<Longrightarrow> \<exists>c'. find (\<lambda>c. f (cat_name c)) cs' = Some c' \<and> cat_id c' = i"
proof (induction cs arbitrary: cs')
  case Nil
  then show ?case by simp
next
  case (Cons x cs)
  from Cons.prems(1) obtain x' rest where
    x': "(if cat_id x = i then apply_patch p x else Some x) = Some x'"
    and rest: "patch_all i p cs = Some rest" and cs': "cs' = x' # rest"
    by (auto split: option.splits)
  have idx: "cat_id x' = cat_id x"
    using x' apply_patch_id by (auto split: if_splits)
  show ?case
  proof (cases "f (cat_name x')")
    case True
    have "cat_id x = i"
    proof (rule ccontr)
      assume n: "cat_id x \<noteq> i"
      then have "x' = x"
        using x' by simp
      then have "c = x"
        using True Cons.prems(2) by simp
      then show False
        using n Cons.prems(3) by simp
    qed
    then show ?thesis
      using True idx cs' by simp
  next
    case False
    have "\<not> f (cat_name x)"
    proof
      assume fx: "f (cat_name x)"
      then have cx: "c = x"
        using Cons.prems(2) by simp
      then have "apply_patch p x = Some x'"
        using x' Cons.prems(3) by simp
      from keep [OF this] show False
        using False fx by auto
    qed
    then have "find (\<lambda>c. f (cat_name c)) cs = Some c"
      using Cons.prems(2) by simp
    from Cons.IH [OF rest this Cons.prems(3)] show ?thesis
      using False cs' by simp
  qed
qed

lemma patch_all_find_none:
  assumes away: "\<And>x x'. apply_patch p x = Some x' \<Longrightarrow> \<not> f (cat_name x')"
  shows "patch_all i p cs = Some cs' \<Longrightarrow> \<forall>x \<in> set cs. f (cat_name x) \<longrightarrow> cat_id x = i \<Longrightarrow>
         find (\<lambda>c. f (cat_name c)) cs' = None"
proof (induction cs arbitrary: cs')
  case Nil
  then show ?case by simp
next
  case (Cons x cs)
  from Cons.prems(1) obtain x' rest where
    x': "(if cat_id x = i then apply_patch p x else Some x) = Some x'"
    and rest: "patch_all i p cs = Some rest" and cs': "cs' = x' # rest"
    by (auto split: option.splits)
  have "\<not> f (cat_name x')"
  proof (cases "cat_id x = i")
    case True
    then show ?thesis
      using x' away by simp
  next
    case False
    then show ?thesis
      using x' Cons.prems(2) by auto
  qed
  moreover have "find (\<lambda>c. f (cat_name c)) rest = None"
    using Cons.IH [OF rest] Cons.prems(2) by simp
  ultimately show ?case
    using cs' by simp
qed

lemma dispatch_update_unmatched:
  assumes "exact_request ''UPDATE_CATEGORY_METADATA'' ops (directory normal suggest) cats parsed
      payload (JStr q) c"
    and "find (\<lambda>x. normal (cat_name x) = normal q) cats' = None"
  shows "dispatch ops (directory normal suggest) cats' parsed =
         responded
           (if suggest cats' q = [] then msg_not_found_update q
            else msg_suggest_update q (suggest cats' q))
           [CallGetCategoryByName (JStr q)] cats'"
proof -
  have a: "property parsed ''action'' = Some (JStr ''UPDATE_CATEGORY_METADATA'')"
    and b: "property parsed ''payload'' = Some payload" and c: "payload \<noteq> JNull"
    and d: "property payload ''categoryName'' = Some (JStr q)" and e: "q \<noteq> []"
    using assms(1) by (simp_all add: exact_request_def)
  have obj: "object_of (Some payload) = Inr payload"
    using c by (cases payload) simp_all
  have nn: "parsed \<noteq> JNull"
    using a by auto
  show ?thesis
    using a b d e obj nn assms(2)
    by (simp add: dispatch_def update_category_metadata_def directory_def resolve_def
        lookup_of_def respond_with_def)
qed

lemma msg_updated_text:
  "msg_updated name =
     ''La cat'' @ [CHR 0xC3, CHR 0xA9] @ ''gorie '' @ [CHR 0x22] @ name @ [CHR 0x22] @ '' a '' @
     [CHR 0xC3, CHR 0xA9] @ ''t'' @ [CHR 0xC3, CHR 0xA9] @ '' mise '' @ [CHR 0xC3, CHR 0xA0] @
     '' jour avec succ'' @ [CHR 0xC3, CHR 0xA8] @ ''s.''"
  by (simp add: msg_updated_def categorie_def quoted_def dq_def e_acute_def a_grave_def
      e_grave_def)

lemma msg_not_found_update_text:
  "msg_not_found_update name =
     ''D'' @ [CHR 0xC3, CHR 0xA9] @ ''sol'' @ [CHR 0xC3, CHR 0xA9] @ '', je n'' @ [CHR 0x27] @
     ''ai pas trouv'' @ [CHR 0xC3, CHR 0xA9] @ '' de cat'' @ [CHR 0xC3, CHR 0xA9] @
     ''gorie nomm'' @ [CHR 0xC3, CHR 0xA9] @ ''e '' @ [CHR 0x22] @ name @ [CHR 0x22] @ '' '' @
     [CHR 0xC3, CHR 0xA0] @ '' mettre '' @ [CHR 0xC3, CHR 0xA0] @ '' jour.''"
  by (simp add: msg_not_found_update_def categorie_def quoted_def dq_def e_acute_def a_grave_def
      pas_trouve_def apos_def mettre_a_jour_def)

lemma msg_suggest_update_text:
  "msg_suggest_update name suggs =
     ''Je n'' @ [CHR 0x27] @ ''ai pas trouv'' @ [CHR 0xC3, CHR 0xA9] @
     '' de correspondance exacte pour '' @ [CHR 0x22] @ name @ [CHR 0x22] @ '' '' @
     [CHR 0xC3, CHR 0xA0] @ '' mettre '' @ [CHR 0xC3, CHR 0xA0] @ '' jour.'' @
     [CHR 0x0A, CHR 0x0A] @ ''Vouliez-vous dire l'' @ [CHR 0x27] @ ''une de ces cat'' @
     [CHR 0xC3, CHR 0xA9] @ ''gories ?'' @ [CHR 0x0A] @ '' - '' @
     join ([CHR 0x0A] @ '' - '') (map (\<lambda>s. [CHR 0x22] @ cat_name s @ [CHR 0x22]) suggs)"
  by (simp add: msg_suggest_update_def vouliez_vous_def suggestionList_def bullet_sep_def
      categorie_def quoted_def dq_def e_acute_def a_grave_def apos_def mettre_a_jour_def nl_def)

text \<open>
  C9. On the directory of the spec, take an update action that resolves the name
  \<open>q\<close> to an exact match and succeeds, and issue it again on the catalog it left.
  When the payload has no truthy \<open>name\<close>, or a \<open>name\<close> with the normal form of \<open>q\<close>,
  the second run gives the same success message (the text of line 185 around the name)
  and leaves the catalog as the first run left it. When the payload renames to a name
  of another normal form and every category that bore the name \<open>q\<close> has the id of the
  match, the second run calls no update and leaves the catalog as the first run left
  it, and its response is the not-found text of line 194, or the suggestion text of
  line 192 when the resolver suggests categories.
\<close>

theorem update_twice:
  fixes normal :: "string \<Rightarrow> string"
  defines "success \<equiv> \<lambda>name.
      ''La cat'' @ [CHR 0xC3, CHR 0xA9] @ ''gorie '' @ [CHR 0x22] @ name @ [CHR 0x22] @ '' a '' @
      [CHR 0xC3, CHR 0xA9] @ ''t'' @ [CHR 0xC3, CHR 0xA9] @ '' mise '' @ [CHR 0xC3, CHR 0xA0] @
      '' jour avec succ'' @ [CHR 0xC3, CHR 0xA8] @ ''s.''"
    and "not_found \<equiv> \<lambda>name.
      ''D'' @ [CHR 0xC3, CHR 0xA9] @ ''sol'' @ [CHR 0xC3, CHR 0xA9] @ '', je n'' @ [CHR 0x27] @
      ''ai pas trouv'' @ [CHR 0xC3, CHR 0xA9] @ '' de cat'' @ [CHR 0xC3, CHR 0xA9] @
      ''gorie nomm'' @ [CHR 0xC3, CHR 0xA9] @ ''e '' @ [CHR 0x22] @ name @ [CHR 0x22] @ '' '' @
      [CHR 0xC3, CHR 0xA0] @ '' mettre '' @ [CHR 0xC3, CHR 0xA0] @ '' jour.''"
    and "suggested \<equiv> \<lambda>name suggs.
      ''Je n'' @ [CHR 0x27] @ ''ai pas trouv'' @ [CHR 0xC3, CHR 0xA9] @
      '' de correspondance exacte pour '' @ [CHR 0x22] @ name @ [CHR 0x22] @ '' '' @
      [CHR 0xC3, CHR 0xA0] @ '' mettre '' @ [CHR 0xC3, CHR 0xA0] @ '' jour.'' @
      [CHR 0x0A, CHR 0x0A] @ ''Vouliez-vous dire l'' @ [CHR 0x27] @ ''une de ces cat'' @
      [CHR 0xC3, CHR 0xA9] @ ''gories ?'' @ [CHR 0x0A] @ '' - '' @
      join ([CHR 0x0A] @ '' - '') (map (\<lambda>s. [CHR 0x22] @ cat_name s @ [CHR 0x22]) suggs)"
  assumes req: "exact_request ''UPDATE_CATEGORY_METADATA'' ops (directory normal suggest) cats
      parsed payload (JStr q) c"
    and ok: "update_succeeded (result (dispatch ops (directory normal suggest) cats parsed))"
  shows
    "(\<not> truthy ops (property payload ''name'') \<longrightarrow>
        result (dispatch ops (directory normal suggest) cats parsed) = Responded (success q) \<and>
        result (dispatch ops (directory normal suggest)
          (site (dispatch ops (directory normal suggest) cats parsed)) parsed) =
          Responded (success q) \<and>
        site (dispatch ops (directory normal suggest)
          (site (dispatch ops (directory normal suggest) cats parsed)) parsed) =
          site (dispatch ops (directory normal suggest) cats parsed)) \<and>
     (\<forall>n'. property payload ''name'' = Some (JStr n') \<and> n' \<noteq> [] \<and> normal n' = normal q \<longrightarrow>
        result (dispatch ops (directory normal suggest) cats parsed) = Responded (success n') \<and>
        result (dispatch ops (directory normal suggest)
          (site (dispatch ops (directory normal suggest) cats parsed)) parsed) =
          Responded (success n') \<and>
        site (dispatch ops (directory normal suggest)
          (site (dispatch ops (directory normal suggest) cats parsed)) parsed) =
          site (dispatch ops (directory normal suggest) cats parsed)) \<and>
     (\<forall>n'. property payload ''name'' = Some (JStr n') \<and> n' \<noteq> [] \<and> normal n' \<noteq> normal q \<and>
           (\<forall>x \<in> set cats. normal (cat_name x) = normal q \<longrightarrow> cat_id x = cat_id c) \<longrightarrow>
        result (dispatch ops (directory normal suggest) cats parsed) = Responded (success n') \<and>
        result (dispatch ops (directory normal suggest)
          (site (dispatch ops (directory normal suggest) cats parsed)) parsed) =
          Responded
            (if suggest (site (dispatch ops (directory normal suggest) cats parsed)) q = []
             then not_found q
             else suggested q
               (suggest (site (dispatch ops (directory normal suggest) cats parsed)) q)) \<and>
        update_calls (dispatch ops (directory normal suggest)
          (site (dispatch ops (directory normal suggest) cats parsed)) parsed) = 0 \<and>
        site (dispatch ops (directory normal suggest)
          (site (dispatch ops (directory normal suggest) cats parsed)) parsed) =
          site (dispatch ops (directory normal suggest) cats parsed))"
proof -
  let ?D = "directory normal suggest :: ('a, wp_category list) services"
  let ?p = "build_patch ops payload"
  let ?i = "cat_id c"
  let ?f = "\<lambda>n. normal n = normal q"
  let ?calls = "[CallGetCategoryByName (JStr q), CallUpdateCategoryMetadata ?i ?p]"
  have r1: "dispatch ops ?D cats parsed = update_exact ops ?D cats payload (JStr q) c"
    by (rule update_request_dispatch [OF req])
  have upd: "updateCategoryMetadata ?D = directory_update"
    by (simp add: directory_def)
  from ok have ne: "?p \<noteq> []" and fst_ok: "fst (directory_update cats ?i ?p) = None"
    and "\<exists>shown. to_string ops (name_or ops (property payload ''name'') (JStr q)) = Inr shown"
    using update_exact_succeeded [of ops ?D cats payload "JStr q" c] by (simp_all add: r1 upd)
  then obtain shown where
    sh: "to_string ops (name_or ops (property payload ''name'') (JStr q)) = Inr shown"
    by blast
  obtain cats' where du: "directory_update cats ?i ?p = (None, cats')"
    using fst_ok by (cases "directory_update cats ?i ?p") simp
  then have mem: "?i \<in> set (map cat_id cats)" and pa: "patch_all ?i ?p cats = Some cats'"
    using directory_update_ok [OF fst_ok] by simp_all
  have run1: "dispatch ops ?D cats parsed = responded (msg_updated shown) ?calls cats'"
    using update_exact_ok [of ops payload ?D cats ?i cats' c "JStr q" shown] ne du sh
    by (simp add: r1 upd)
  have dist: "distinct (map fst ?p)"
    by (rule build_patch_distinct)
  have found: "find (\<lambda>x. ?f (cat_name x)) cats = Some c"
    using directory_request [OF req] by simp
  have again: "dispatch ops ?D cats' parsed = responded (msg_updated shown) ?calls cats'"
    if c': "find (\<lambda>x. ?f (cat_name x)) cats' = Some c'" and id': "cat_id c' = ?i" for c'
  proof -
    have req': "exact_request ''UPDATE_CATEGORY_METADATA'' ops ?D cats' parsed payload (JStr q) c'"
      by (rule directory_request_moved [OF req c'])
    have "map cat_id cats' = map cat_id cats"
      by (rule patch_all_ids [OF pa])
    moreover have "patch_all ?i ?p cats' = Some cats'"
      by (rule patch_all_idem [OF dist pa])
    ultimately have du': "directory_update cats' ?i ?p = (None, cats')"
      using mem by (simp add: directory_update_def)
    show ?thesis
      using update_exact_ok [of ops payload ?D cats' ?i cats' c' "JStr q" shown] ne du' id' sh
      by (simp add: update_request_dispatch [OF req'] upd)
  qed
  have kept: "result (dispatch ops ?D cats parsed) = Responded (success shown) \<and>
      result (dispatch ops ?D (site (dispatch ops ?D cats parsed)) parsed) =
        Responded (success shown) \<and>
      site (dispatch ops ?D (site (dispatch ops ?D cats parsed)) parsed) =
        site (dispatch ops ?D cats parsed)"
    if keep: "\<And>x x'. apply_patch ?p x = Some x' \<Longrightarrow> cat_name x' = cat_name x \<or> ?f (cat_name x')"
  proof -
    obtain c' where "find (\<lambda>x. ?f (cat_name x)) cats' = Some c'" "cat_id c' = ?i"
      using patch_all_find_kept [of ?p ?f ?i cats cats' c, OF keep pa found] by blast
    from again [OF this] show ?thesis
      by (simp add: run1 responded_def success_def msg_updated_text)
  qed
  have named: "map_of ?p ''name'' = Some (JStr n')" and shown_n: "shown = n'"
    if "property payload ''name'' = Some (JStr n')" and "n' \<noteq> []" for n'
    using that build_patch_name [of ops payload] sh by (simp_all add: name_or_def)
  have one: "\<not> truthy ops (property payload ''name'') \<longrightarrow>
      result (dispatch ops ?D cats parsed) = Responded (success q) \<and>
      result (dispatch ops ?D (site (dispatch ops ?D cats parsed)) parsed) =
        Responded (success q) \<and>
      site (dispatch ops ?D (site (dispatch ops ?D cats parsed)) parsed) =
        site (dispatch ops ?D cats parsed)"
  proof
    assume nt: "\<not> truthy ops (property payload ''name'')"
    then have "''name'' \<notin> fst ` set ?p"
      using build_patch_name [of ops payload] by (simp add: map_of_eq_None_iff)
    then have keep: "\<And>x x'. apply_patch ?p x = Some x' \<Longrightarrow>
        cat_name x' = cat_name x \<or> ?f (cat_name x')"
      using apply_patch_name by blast
    have "name_or ops (property payload ''name'') (JStr q) = JStr q"
      using nt by (cases "property payload ''name''") (simp_all add: name_or_def)
    then have "shown = q"
      using sh by simp
    then show "result (dispatch ops ?D cats parsed) = Responded (success q) \<and>
      result (dispatch ops ?D (site (dispatch ops ?D cats parsed)) parsed) =
        Responded (success q) \<and>
      site (dispatch ops ?D (site (dispatch ops ?D cats parsed)) parsed) =
        site (dispatch ops ?D cats parsed)"
      using kept [OF keep] by simp
  qed
  have two: "\<forall>n'. property payload ''name'' = Some (JStr n') \<and> n' \<noteq> [] \<and> normal n' = normal q \<longrightarrow>
      result (dispatch ops ?D cats parsed) = Responded (success n') \<and>
      result (dispatch ops ?D (site (dispatch ops ?D cats parsed)) parsed) =
        Responded (success n') \<and>
      site (dispatch ops ?D (site (dispatch ops ?D cats parsed)) parsed) =
        site (dispatch ops ?D cats parsed)"
  proof (intro allI impI, elim conjE)
    fix n'
    assume n: "property payload ''name'' = Some (JStr n')" "n' \<noteq> []" and eq: "normal n' = normal q"
    have keep: "\<And>x x'. apply_patch ?p x = Some x' \<Longrightarrow>
        cat_name x' = cat_name x \<or> ?f (cat_name x')"
      using apply_patch_renamed [OF dist named [OF n]] eq by simp
    show "result (dispatch ops ?D cats parsed) = Responded (success n') \<and>
      result (dispatch ops ?D (site (dispatch ops ?D cats parsed)) parsed) =
        Responded (success n') \<and>
      site (dispatch ops ?D (site (dispatch ops ?D cats parsed)) parsed) =
        site (dispatch ops ?D cats parsed)"
      using kept [OF keep] shown_n [OF n] by simp
  qed
  have three: "\<forall>n'. property payload ''name'' = Some (JStr n') \<and> n' \<noteq> [] \<and>
        normal n' \<noteq> normal q \<and>
        (\<forall>x \<in> set cats. normal (cat_name x) = normal q \<longrightarrow> cat_id x = cat_id c) \<longrightarrow>
      result (dispatch ops ?D cats parsed) = Responded (success n') \<and>
      result (dispatch ops ?D (site (dispatch ops ?D cats parsed)) parsed) =
        Responded
          (if suggest (site (dispatch ops ?D cats parsed)) q = [] then not_found q
           else suggested q (suggest (site (dispatch ops ?D cats parsed)) q)) \<and>
      update_calls (dispatch ops ?D (site (dispatch ops ?D cats parsed)) parsed) = 0 \<and>
      site (dispatch ops ?D (site (dispatch ops ?D cats parsed)) parsed) =
        site (dispatch ops ?D cats parsed)"
  proof (intro allI impI, elim conjE)
    fix n'
    assume n: "property payload ''name'' = Some (JStr n')" "n' \<noteq> []"
      and neq: "normal n' \<noteq> normal q"
      and only: "\<forall>x \<in> set cats. normal (cat_name x) = normal q \<longrightarrow> cat_id x = cat_id c"
    have away: "\<And>x x'. apply_patch ?p x = Some x' \<Longrightarrow> \<not> ?f (cat_name x')"
      using apply_patch_renamed [OF dist named [OF n]] neq by simp
    have none: "find (\<lambda>x. ?f (cat_name x)) cats' = None"
      using patch_all_find_none [of ?p ?f ?i cats cats', OF away pa] only by simp
    have run2: "dispatch ops ?D cats' parsed =
        responded
          (if suggest cats' q = [] then msg_not_found_update q
           else msg_suggest_update q (suggest cats' q))
          [CallGetCategoryByName (JStr q)] cats'"
      by (rule dispatch_update_unmatched [OF req none])
    show "result (dispatch ops ?D cats parsed) = Responded (success n') \<and>
      result (dispatch ops ?D (site (dispatch ops ?D cats parsed)) parsed) =
        Responded
          (if suggest (site (dispatch ops ?D cats parsed)) q = [] then not_found q
           else suggested q (suggest (site (dispatch ops ?D cats parsed)) q)) \<and>
      update_calls (dispatch ops ?D (site (dispatch ops ?D cats parsed)) parsed) = 0 \<and>
      site (dispatch ops ?D (site (dispatch ops ?D cats parsed)) parsed) =
        site (dispatch ops ?D cats parsed)"
      using shown_n [OF n]
      by (simp add: run1 run2 responded_def success_def not_found_def suggested_def
          msg_updated_text msg_not_found_update_text msg_suggest_update_text update_calls_def
          is_update_def)
  qed
  from one two three show ?thesis
    by blast
qed

lemmas sample_eval =
  dispatch_def update_category_metadata_def update_exact_def update_failed_def respond_with_def
  build_patch_def put_present_def put_truthy_def Let_def rename_action_def slug_action_def
  recase_action_def action_json_def sample_directory_def directory_def resolve_def lookup_of_def
  to_lower_def lower_char_def shoes_catalog_def twin_catalog_def bare_category_def
  directory_update_def set_field_def responded_def thrown_def nat_num_def name_or_def
  no_suggestions_def

lemma rename_first_run:
  "dispatch nat_num sample_directory shoes_catalog rename_action =
     \<lparr>result = Responded (msg_updated ''Boots''),
      calls = [CallGetCategoryByName (JStr ''Shoes''),
               CallUpdateCategoryMetadata 1 [(''name'', JStr ''Boots'')]],
      site = [bare_category 1 ''Boots'', bare_category 2 ''Shirts'']\<rparr>"
  by (simp add: sample_eval)

lemma rename_second_run:
  "dispatch nat_num sample_directory [bare_category 1 ''Boots'', bare_category 2 ''Shirts'']
     rename_action =
     \<lparr>result = Responded (msg_not_found_update ''Shoes''),
      calls = [CallGetCategoryByName (JStr ''Shoes'')],
      site = [bare_category 1 ''Boots'', bare_category 2 ''Shirts'']\<rparr>"
  by (simp add: sample_eval)

lemma twin_first_run:
  "dispatch nat_num sample_directory twin_catalog rename_action =
     \<lparr>result = Responded (msg_updated ''Boots''),
      calls = [CallGetCategoryByName (JStr ''Shoes''),
               CallUpdateCategoryMetadata 1 [(''name'', JStr ''Boots'')]],
      site = [bare_category 1 ''Boots'', bare_category 2 ''SHOES'']\<rparr>"
  by (simp add: sample_eval)

lemma twin_second_run:
  "dispatch nat_num sample_directory [bare_category 1 ''Boots'', bare_category 2 ''SHOES'']
     rename_action =
     \<lparr>result = Responded (msg_updated ''Boots''),
      calls = [CallGetCategoryByName (JStr ''Shoes''),
               CallUpdateCategoryMetadata 2 [(''name'', JStr ''Boots'')]],
      site = [bare_category 1 ''Boots'', bare_category 2 ''Boots'']\<rparr>"
  by (simp add: sample_eval)

lemma slug_first_run:
  "dispatch nat_num sample_directory shoes_catalog slug_action =
     \<lparr>result = Responded (msg_updated ''shoes''),
      calls = [CallGetCategoryByName (JStr ''shoes''),
               CallUpdateCategoryMetadata 1 [(''slug'', JStr ''boots'')]],
      site = [(bare_category 1 ''Shoes'')\<lparr>cat_slug := ''boots''\<rparr>, bare_category 2 ''Shirts'']\<rparr>"
  by (simp add: sample_eval)

lemma recase_first_run:
  "dispatch nat_num sample_directory shoes_catalog recase_action =
     \<lparr>result = Responded (msg_updated ''SHOES''),
      calls = [CallGetCategoryByName (JStr ''shoes''),
               CallUpdateCategoryMetadata 1 [(''name'', JStr ''SHOES'')]],
      site = [bare_category 1 ''SHOES'', bare_category 2 ''Shirts'']\<rparr>"
  by (simp add: sample_eval)

text \<open>
  Renaming \<open>Shoes\<close> to \<open>Boots\<close> succeeds; issued again on the catalog it left, the name
  \<open>Shoes\<close> resolves to nothing and the response is the not-found message, no success
  message. On a catalog with a second category \<open>SHOES\<close>, the second run resolves
  \<open>Shoes\<close> to that one and renames it too, so the catalog after the second run is not
  the catalog after the first.
\<close>

theorem rename_twice_counterexample:
  "update_succeeded (result (dispatch nat_num sample_directory shoes_catalog rename_action)) \<and>
   site (dispatch nat_num sample_directory shoes_catalog rename_action) =
     [bare_category 1 ''Boots'', bare_category 2 ''Shirts''] \<and>
   result (dispatch nat_num sample_directory
     (site (dispatch nat_num sample_directory shoes_catalog rename_action)) rename_action) =
     Responded (msg_not_found_update ''Shoes'') \<and>
   \<not> update_succeeded (result (dispatch nat_num sample_directory
     (site (dispatch nat_num sample_directory shoes_catalog rename_action)) rename_action)) \<and>
   update_succeeded (result (dispatch nat_num sample_directory twin_catalog rename_action)) \<and>
   site (dispatch nat_num sample_directory twin_catalog rename_action) =
     [bare_category 1 ''Boots'', bare_category 2 ''SHOES''] \<and>
   site (dispatch nat_num sample_directory
     (site (dispatch nat_num sample_directory twin_catalog rename_action)) rename_action) =
     [bare_category 1 ''Boots'', bare_category 2 ''Boots''] \<and>
   site (dispatch nat_num sample_directory
     (site (dispatch nat_num sample_directory twin_catalog rename_action)) rename_action) \<noteq>
   site (dispatch nat_num sample_directory twin_catalog rename_action)"
proof -
  have "bare_category 2 ''Boots'' \<noteq> bare_category 2 ''SHOES''"
    by (simp add: bare_category_def)
  then show ?thesis
    by (simp add: rename_first_run rename_second_run twin_first_run twin_second_run
        update_succeeded_def is_updated_msg_updated not_updated_not_found)
qed


theorem update_twice_witness:
  "exact_request ''UPDATE_CATEGORY_METADATA'' nat_num (directory to_lower no_suggestions)
     shoes_catalog slug_action (JObj [(''categoryName'', JStr ''shoes''), (''slug'', JStr ''boots'')])
     (JStr ''shoes'') (bare_category 1 ''Shoes'') \<and>
   update_succeeded
     (result (dispatch nat_num (directory to_lower no_suggestions) shoes_catalog slug_action)) \<and>
   site (dispatch nat_num (directory to_lower no_suggestions) shoes_catalog slug_action) =
     [(bare_category 1 ''Shoes'')\<lparr>cat_slug := ''boots''\<rparr>, bare_category 2 ''Shirts''] \<and>
   site (dispatch nat_num (directory to_lower no_suggestions)
     (site (dispatch nat_num (directory to_lower no_suggestions) shoes_catalog slug_action))
     slug_action) =
     [(bare_category 1 ''Shoes'')\<lparr>cat_slug := ''boots''\<rparr>, bare_category 2 ''Shirts''] \<and>
   result (dispatch nat_num (directory to_lower no_suggestions)
     (site (dispatch nat_num (directory to_lower no_suggestions) shoes_catalog slug_action))
     slug_action) = Responded (msg_updated ''shoes'') \<and>
   exact_request ''UPDATE_CATEGORY_METADATA'' nat_num (directory to_lower no_suggestions)
     shoes_catalog recase_action
     (JObj [(''categoryName'', JStr ''shoes''), (''name'', JStr ''SHOES'')])
     (JStr ''shoes'') (bare_category 1 ''Shoes'') \<and>
   update_succeeded
     (result (dispatch nat_num (directory to_lower no_suggestions) shoes_catalog recase_action)) \<and>
   site (dispatch nat_num (directory to_lower no_suggestions) shoes_catalog recase_action) =
     [bare_category 1 ''SHOES'', bare_category 2 ''Shirts''] \<and>
   site (dispatch nat_num (directory to_lower no_suggestions)
     (site (dispatch nat_num (directory to_lower no_suggestions) shoes_catalog recase_action))
     recase_action) =
     [bare_category 1 ''SHOES'', bare_category 2 ''Shirts''] \<and>
   result (dispatch nat_num (directory to_lower no_suggestions)
     (site (dispatch nat_num (directory to_lower no_suggestions) shoes_catalog recase_action))
     recase_action) = Responded (msg_updated ''SHOES'') \<and>
   exact_request ''UPDATE_CATEGORY_METADATA'' nat_num (directory to_lower no_suggestions)
     shoes_catalog rename_action
     (JObj [(''categoryName'', JStr ''Shoes''), (''name'', JStr ''Boots'')])
     (JStr ''Shoes'') (bare_category 1 ''Shoes'') \<and>
   update_succeeded
     (result (dispatch nat_num (directory to_lower no_suggestions) shoes_catalog rename_action)) \<and>
   site (dispatch nat_num (directory to_lower no_suggestions) shoes_catalog rename_action) =
     [bare_category 1 ''Boots'', bare_category 2 ''Shirts''] \<and>
   site (dispatch nat_num (directory to_lower no_suggestions)
     (site (dispatch nat_num (directory to_lower no_suggestions) shoes_catalog rename_action))
     rename_action) =
     [bare_category 1 ''Boots'', bare_category 2 ''Shirts''] \<and>
   result (dispatch nat_num (directory to_lower no_suggestions)
     (site (dispatch nat_num (directory to_lower no_suggestions) shoes_catalog rename_action))
     rename_action) = Responded (msg_not_found_update ''Shoes'')"
proof -
  let ?D = "directory to_lower no_suggestions :: (nat, wp_category list) services"
  let ?slug = "JObj [(''categoryName'', JStr ''shoes''), (''slug'', JStr ''boots'')] :: nat json"
  let ?recase = "JObj [(''categoryName'', JStr ''shoes''), (''name'', JStr ''SHOES'')] :: nat json"
  let ?rename = "JObj [(''categoryName'', JStr ''Shoes''), (''name'', JStr ''Boots'')] :: nat json"
  have D: "?D = sample_directory"
    by (simp add: sample_directory_def)
  have h1: "exact_request ''UPDATE_CATEGORY_METADATA'' nat_num ?D shoes_catalog slug_action
      ?slug (JStr ''shoes'') (bare_category 1 ''Shoes'')"
    using sample_request [of "''UPDATE_CATEGORY_METADATA''" "[(''slug'', JStr ''boots'')]"]
    by (simp add: slug_action_def sample_directory_def)
  have h2: "exact_request ''UPDATE_CATEGORY_METADATA'' nat_num ?D shoes_catalog recase_action
      ?recase (JStr ''shoes'') (bare_category 1 ''Shoes'')"
    using sample_request [of "''UPDATE_CATEGORY_METADATA''" "[(''name'', JStr ''SHOES'')]"]
    by (simp add: recase_action_def sample_directory_def)
  have h3: "exact_request ''UPDATE_CATEGORY_METADATA'' nat_num ?D shoes_catalog rename_action
      ?rename (JStr ''Shoes'') (bare_category 1 ''Shoes'')"
    by (simp add: exact_request_def rename_action_def action_json_def directory_def
        shoes_catalog_def resolve_def lookup_of_def to_lower_def lower_char_def bare_category_def)
  have s1: "update_succeeded (result (dispatch nat_num ?D shoes_catalog slug_action))"
    and s2: "update_succeeded (result (dispatch nat_num ?D shoes_catalog recase_action))"
    and s3: "update_succeeded (result (dispatch nat_num ?D shoes_catalog rename_action))"
    by (simp_all add: D slug_first_run recase_first_run rename_first_run update_succeeded_def
        is_updated_msg_updated)
  have t1: "site (dispatch nat_num ?D shoes_catalog slug_action) =
      [(bare_category 1 ''Shoes'')\<lparr>cat_slug := ''boots''\<rparr>, bare_category 2 ''Shirts'']"
    and t2: "site (dispatch nat_num ?D shoes_catalog recase_action) =
      [bare_category 1 ''SHOES'', bare_category 2 ''Shirts'']"
    and t3: "site (dispatch nat_num ?D shoes_catalog rename_action) =
      [bare_category 1 ''Boots'', bare_category 2 ''Shirts'']"
    by (simp_all add: D slug_first_run recase_first_run rename_first_run)
  have n1: "\<not> truthy nat_num (property ?slug ''name'')"
    by simp
  have n2: "property ?recase ''name'' = Some (JStr ''SHOES'') \<and> ''SHOES'' \<noteq> [] \<and>
      to_lower ''SHOES'' = to_lower ''shoes''"
    by (simp add: to_lower_def lower_char_def)
  have n3: "property ?rename ''name'' = Some (JStr ''Boots'') \<and> ''Boots'' \<noteq> [] \<and>
      to_lower ''Boots'' \<noteq> to_lower ''Shoes'' \<and>
      (\<forall>x \<in> set shoes_catalog. to_lower (cat_name x) = to_lower ''Shoes'' \<longrightarrow>
         cat_id x = cat_id (bare_category 1 ''Shoes''))"
    by (simp add: to_lower_def lower_char_def shoes_catalog_def bare_category_def)
  have ns: "no_suggestions [bare_category 1 ''Boots'', bare_category 2 ''Shirts''] ''Shoes'' = []"
    by (simp add: no_suggestions_def)
  note w1 = update_twice [OF h1 s1, THEN conjunct1, rule_format, OF n1]
  note w2 = update_twice [OF h2 s2, THEN conjunct2, THEN conjunct1, rule_format, OF n2]
  note w3 = update_twice [OF h3 s3, THEN conjunct2, THEN conjunct2, rule_format, OF n3]
  have r1: "result (dispatch nat_num ?D (site (dispatch nat_num ?D shoes_catalog slug_action))
      slug_action) = Responded (msg_updated ''shoes'')"
    using w1 by (simp add: msg_updated_text)
  have r2: "result (dispatch nat_num ?D (site (dispatch nat_num ?D shoes_catalog recase_action))
      recase_action) = Responded (msg_updated ''SHOES'')"
    using w2 by (simp add: msg_updated_text)
  have r3: "result (dispatch nat_num ?D (site (dispatch nat_num ?D shoes_catalog rename_action))
      rename_action) = Responded (msg_not_found_update ''Shoes'')"
    using w3 by (simp add: t3 ns msg_not_found_update_text)
  have u1: "site (dispatch nat_num ?D (site (dispatch nat_num ?D shoes_catalog slug_action))
      slug_action) = [(bare_category 1 ''Shoes'')\<lparr>cat_slug := ''boots''\<rparr>, bare_category 2 ''Shirts'']"
    using w1 t1 by simp
  have u2: "site (dispatch nat_num ?D (site (dispatch nat_num ?D shoes_catalog recase_action))
      recase_action) = [bare_category 1 ''SHOES'', bare_category 2 ''Shirts'']"
    using w2 t2 by simp
  have u3: "site (dispatch nat_num ?D (site (dispatch nat_num ?D shoes_catalog rename_action))
      rename_action) = [bare_category 1 ''Boots'', bare_category 2 ''Shirts'']"
    using w3 t3 by simp
  show ?thesis
    using h1 h2 h3 s1 s2 s3 t1 t2 t3 r1 r2 r3 u1 u2 u3 by blast
qed

end
